theory Spec2Isabelle
  imports Complex_Main "HOL-Library.AList"
begin

section \<open>Python values\<close>

text \<open>
  The exceptions the program can meet. All of them are subclasses of Python's
  \<open>Exception\<close>, so every \<open>except Exception\<close> clause of the source catches each of them.
\<close>

datatype exn =
    KeyError string
  | IndexError
  | ValueError
  | TypeError
  | OverflowError
  | OSError
  | PlainException string
  | ProviderFault string

text \<open>
  A floating-point number. Finite values are exact rationals (IEEE rounding and signed
  zeros are not modelled); the three non-finite values are kept, since the source meets
  them: a missing observation of a series is NaN, and dividing one numpy number by a zero
  gives an infinity or NaN without raising.
\<close>

datatype pyfloat = Fin rat | PInf | NInf | NaN

fun fl_sgn :: "pyfloat \<Rightarrow> int" where
  "fl_sgn (Fin a) = (if 0 < a then 1 else if a < 0 then - 1 else 0)"
| "fl_sgn PInf = 1"
| "fl_sgn NInf = - 1"
| "fl_sgn NaN = 0"

fun fl_sub :: "pyfloat \<Rightarrow> pyfloat \<Rightarrow> pyfloat" where
  "fl_sub (Fin a) (Fin b) = Fin (a - b)"
| "fl_sub NaN y = NaN"
| "fl_sub x NaN = NaN"
| "fl_sub PInf PInf = NaN"
| "fl_sub NInf NInf = NaN"
| "fl_sub PInf y = PInf"
| "fl_sub NInf y = NInf"
| "fl_sub x PInf = NInf"
| "fl_sub x NInf = PInf"

fun fl_mul :: "pyfloat \<Rightarrow> pyfloat \<Rightarrow> pyfloat" where
  "fl_mul (Fin a) (Fin b) = Fin (a * b)"
| "fl_mul NaN y = NaN"
| "fl_mul x NaN = NaN"
| "fl_mul x y =
     (if 0 < fl_sgn x * fl_sgn y then PInf else if fl_sgn x * fl_sgn y < 0 then NInf else NaN)"

text \<open>Division of numpy numbers: a zero divisor gives an infinity or NaN, never an exception.\<close>

fun fl_div :: "pyfloat \<Rightarrow> pyfloat \<Rightarrow> pyfloat" where
  "fl_div (Fin a) (Fin b) =
     (if b \<noteq> 0 then Fin (a / b) else if 0 < a then PInf else if a < 0 then NInf else NaN)"
| "fl_div NaN y = NaN"
| "fl_div x NaN = NaN"
| "fl_div (Fin a) y = Fin 0"
| "fl_div x (Fin b) = (if 0 \<le> fl_sgn x * (if b < 0 then - 1 else 1) then PInf else NInf)"
| "fl_div x y = NaN"

fun fl_le :: "pyfloat \<Rightarrow> pyfloat \<Rightarrow> bool" where
  "fl_le NaN y = False"
| "fl_le x NaN = False"
| "fl_le (Fin a) (Fin b) = (a \<le> b)"
| "fl_le NInf y = True"
| "fl_le x PInf = True"
| "fl_le x y = False"

definition fl_less :: "pyfloat \<Rightarrow> pyfloat \<Rightarrow> bool" where
  "fl_less x y = (fl_le x y \<and> x \<noteq> y)"

text \<open>\<open>int(x)\<close> truncates towards zero and raises on a non-finite number.\<close>

fun py_int :: "pyfloat \<Rightarrow> exn + int" where
  "py_int (Fin a) = Inr (if 0 \<le> a then \<lfloor>a\<rfloor> else \<lceil>a\<rceil>)"
| "py_int NaN = Inl ValueError"
| "py_int PInf = Inl OverflowError"
| "py_int NInf = Inl OverflowError"

text \<open>
  The values the program handles: \<open>None\<close>, numbers, strings, calendar dates (year, month,
  day) and dictionaries. A dictionary is an association list in insertion order, which is
  the order Python iterates in.
\<close>

datatype pyval =
    VNone
  | VFloat pyfloat
  | VStr string
  | VDate int int int
  | VDict "(string \<times> pyval) list"

type_synonym pydict = "(string \<times> pyval) list"

definition is_dict :: "pyval \<Rightarrow> bool" where
  "is_dict v = (case v of VDict d \<Rightarrow> True | _ \<Rightarrow> False)"

definition dict_keys :: "pydict \<Rightarrow> string list" where
  "dict_keys d = map fst d"

definition dict_has :: "pydict \<Rightarrow> string \<Rightarrow> bool" where
  "dict_has d k = (map_of d k \<noteq> None)"

text \<open>\<open>d[k] = v\<close>: an existing key keeps its place, a new key goes to the end.\<close>

definition dict_set :: "pydict \<Rightarrow> string \<Rightarrow> pyval \<Rightarrow> pydict" where
  "dict_set d k v = AList.update k v d"

definition dict_del :: "pydict \<Rightarrow> string \<Rightarrow> pydict" where
  "dict_del d k = AList.delete k d"

text \<open>Truthiness of a value in a condition.\<close>

fun py_truthy :: "pyval \<Rightarrow> bool" where
  "py_truthy VNone = False"
| "py_truthy (VFloat x) = (x \<noteq> Fin 0)"
| "py_truthy (VStr s) = (s \<noteq> [])"
| "py_truthy (VDate y m d) = True"
| "py_truthy (VDict d) = (d \<noteq> [])"

section \<open>Exceptions as values\<close>

definition ebind :: "exn + 'a \<Rightarrow> ('a \<Rightarrow> exn + 'b) \<Rightarrow> exn + 'b" where
  "ebind m f = (case m of Inl e \<Rightarrow> Inl e | Inr x \<Rightarrow> f x)"

text \<open>\<open>try: body except Exception as e: handler\<close>.\<close>

definition try_except :: "exn + 'a \<Rightarrow> (exn \<Rightarrow> exn + 'a) \<Rightarrow> exn + 'a" where
  "try_except body handler = (case body of Inl e \<Rightarrow> handler e | Inr x \<Rightarrow> Inr x)"

definition returns :: "exn + 'a \<Rightarrow> bool" where
  "returns r = (case r of Inl e \<Rightarrow> False | Inr x \<Rightarrow> True)"

section \<open>The providers and the operating system\<close>

type_synonym series = "(string \<times> pyfloat) list"

type_synonym dataframe = "(string \<times> pyval list) list"

text \<open>
  Everything outside the program is read from one record: the clock, the quote provider
  (\<open>yf.Ticker(symbol).info.get(field)\<close>), the statistical database
  (\<open>fred.get_series(id)\<close>, a series being its observations in order, each a rendered date
  and a value), the HTTP client (the status code of a GET) and the spreadsheet parser.
  Each provider either raises or answers, and within one world it answers the same call
  the same way. The library functions \<open>float\<close> on a string, \<open>str\<close> and \<open>strftime\<close> are
  parameters too, and so are the faults the operating system raises when the sink's
  directory is created and when the sink is opened for appending. Logging, printing and the
  removal of temporary files are not modelled: they are taken not to fail.
\<close>

record world =
  today :: string
  now_stamp :: string
  yf_info_get :: "string \<Rightarrow> string \<Rightarrow> exn + pyval"
  fred_get_series :: "string \<Rightarrow> exn + series"
  requests_get :: "string \<Rightarrow> exn + nat"
  read_excel :: "string \<Rightarrow> exn + dataframe"
  openpyxl_installed :: bool
  float_of_str :: "string \<Rightarrow> pyfloat option"
  str_of :: "pyval \<Rightarrow> string"
  strftime_ymd :: "int \<Rightarrow> int \<Rightarrow> int \<Rightarrow> string"
  makedirs_fault :: "exn option"
  open_fault :: "exn option"

section \<open>The tabular exporter\<close>

record csv_row =
  row_metric :: string
  row_sub_metric :: string
  row_value :: pyval
  row_timestamp :: pyval
  row_source :: pyval
  row_retrieval_time :: string

datatype csv_line = HeaderLine "string list" | DataLine csv_row

definition fieldnames :: "string list" where
  "fieldnames = [''metric'', ''sub_metric'', ''value'', ''timestamp'', ''source'', ''retrieval_time'']"

text \<open>A path names no file, or a regular file with its lines.\<close>

type_synonym filesystem = "string \<Rightarrow> csv_line list option"

definition isfile :: "filesystem \<Rightarrow> string \<Rightarrow> bool" where
  "isfile fs p = (fs p \<noteq> None)"

definition getsize_pos :: "filesystem \<Rightarrow> string \<Rightarrow> bool" where
  "getsize_pos fs p = (case fs p of None \<Rightarrow> False | Some ls \<Rightarrow> ls \<noteq> [])"

text \<open>The two fields of \<open>USMarketMetrics\<close> the exporter uses.\<close>

record exporter =
  csv_export_path :: "string option"
  csv_headers_written :: bool

text \<open>The truth value of \<open>csv_export_path\<close> in a condition: set, and not the empty string.\<close>

definition path_set :: "string option \<Rightarrow> bool" where
  "path_set p = (case p of None \<Rightarrow> False | Some s \<Rightarrow> s \<noteq> [])"

text \<open>
  \<open>_initialize_csv_export\<close>: a sink that exists and is not empty is taken to have its header;
  any failure disables the export by clearing the path.
\<close>

definition initialize_csv_export :: "world \<Rightarrow> exporter \<Rightarrow> filesystem \<Rightarrow> exn + exporter" where
  "initialize_csv_export w self fs =
     try_except
       (case csv_export_path self of
          None \<Rightarrow> Inl TypeError
        | Some p \<Rightarrow>
            (case makedirs_fault w of
               Some e \<Rightarrow> Inl e
             | None \<Rightarrow>
                 (let file_exists = isfile fs p;
                      file_empty = (\<not> file_exists \<or> \<not> getsize_pos fs p)
                  in if file_empty then Inr self
                     else Inr (self\<lparr>csv_headers_written := True\<rparr>))))
       (\<lambda>e. Inr (self\<lparr>csv_export_path := None\<rparr>))"

text \<open>The part of \<open>__init__\<close> that concerns the exporter.\<close>

definition init :: "world \<Rightarrow> filesystem \<Rightarrow> string option \<Rightarrow> exn + exporter" where
  "init w fs path =
     (let self = \<lparr>csv_export_path = path, csv_headers_written = False\<rparr>
      in if path_set path then initialize_csv_export w self fs else Inr self)"

definition mk_row :: "world \<Rightarrow> string \<Rightarrow> pyval \<Rightarrow> pyval \<Rightarrow> string \<Rightarrow> pyval \<Rightarrow> csv_row" where
  "mk_row w metric_name timestamp source sub v =
     \<lparr>row_metric = metric_name, row_sub_metric = sub, row_value = v,
      row_timestamp = timestamp, row_source = source, row_retrieval_time = now_stamp w\<rparr>"

text \<open>The inner loop, over the entries of a nested dictionary.\<close>

fun nested_rows :: "world \<Rightarrow> string \<Rightarrow> pyval \<Rightarrow> pyval \<Rightarrow> string \<Rightarrow> pydict \<Rightarrow> csv_row list" where
  "nested_rows w metric_name timestamp source key [] = []"
| "nested_rows w metric_name timestamp source key ((sub_key, sub_value) # rest) =
     mk_row w metric_name timestamp source (key @ ''_'' @ sub_key) sub_value
       # nested_rows w metric_name timestamp source key rest"

text \<open>The outer loop, over the entries of the record.\<close>

fun group_rows :: "world \<Rightarrow> string \<Rightarrow> pyval \<Rightarrow> pyval \<Rightarrow> pydict \<Rightarrow> csv_row list" where
  "group_rows w metric_name timestamp source [] = []"
| "group_rows w metric_name timestamp source ((key, v) # rest) =
     (case v of
        VDict d \<Rightarrow> nested_rows w metric_name timestamp source key d
      | _ \<Rightarrow> [mk_row w metric_name timestamp source key v])
     @ group_rows w metric_name timestamp source rest"

text \<open>The record without its metadata, as \<open>data_copy\<close> is after the two \<open>pop\<close>s.\<close>

definition payload :: "pydict \<Rightarrow> pydict" where
  "payload data = dict_del (dict_del data ''timestamp'') ''source''"

definition rows_to_write :: "world \<Rightarrow> string \<Rightarrow> pydict \<Rightarrow> csv_row list" where
  "rows_to_write w metric_name data =
     (let timestamp = (case map_of data ''timestamp'' of Some t \<Rightarrow> t | None \<Rightarrow> VStr (today w));
          data1 = dict_del data ''timestamp'';
          source = (case map_of data1 ''source'' of Some s \<Rightarrow> s | None \<Rightarrow> VStr ''Unknown'');
          data_copy = dict_del data1 ''source''
      in case (length data_copy = 1, map_of data_copy ''value'') of
           (True, Some v) \<Rightarrow> [mk_row w metric_name timestamp source ''value'' v]
         | _ \<Rightarrow> group_rows w metric_name timestamp source data_copy)"

text \<open>
  \<open>_export_to_csv\<close>: nothing when the export is disabled; otherwise the rows are appended to
  the sink, after the header when the sink is absent or empty or the header is not yet
  marked as written. Opening an absent sink for appending creates it. The \<open>except\<close> clause
  logs and prints, and changes nothing.
\<close>

definition export_to_csv ::
  "world \<Rightarrow> exporter \<Rightarrow> filesystem \<Rightarrow> string \<Rightarrow> pydict \<Rightarrow> exn + (exporter \<times> filesystem)" where
  "export_to_csv w self fs metric_name data =
     (case csv_export_path self of
        None \<Rightarrow> Inr (self, fs)
      | Some p \<Rightarrow>
          if p = [] then Inr (self, fs)
          else
            try_except
              (let rows = rows_to_write w metric_name data;
                   file_exists = (isfile fs p \<and> getsize_pos fs p)
               in case open_fault w of
                    Some e \<Rightarrow> Inl e
                  | None \<Rightarrow>
                      (let old = (case fs p of None \<Rightarrow> [] | Some ls \<Rightarrow> ls);
                           write_header = (\<not> file_exists \<or> \<not> csv_headers_written self);
                           head = (if write_header then [HeaderLine fieldnames] else []);
                           self' = (if write_header then self\<lparr>csv_headers_written := True\<rparr>
                                    else self)
                       in Inr (self', fs(p \<mapsto> old @ head @ map DataLine rows))))
              (\<lambda>e. Inr (self, fs)))"

text \<open>A sequence of exports on one instance, each with the world it runs in.\<close>

fun export_all ::
  "exporter \<Rightarrow> filesystem \<Rightarrow> (world \<times> string \<times> pydict) list \<Rightarrow> exn + (exporter \<times> filesystem)" where
  "export_all self fs [] = Inr (self, fs)"
| "export_all self fs ((w, metric_name, data) # rest) =
     ebind (export_to_csv w self fs metric_name data) (\<lambda>(self', fs'). export_all self' fs' rest)"

section \<open>Helpers of the resolvers\<close>

text \<open>\<open>_log_error\<close> logs, prints and returns \<open>None\<close>.\<close>

definition log_error :: "string \<Rightarrow> exn \<Rightarrow> pyval" where
  "log_error message e = VNone"

text \<open>\<open>xs.iloc[-n]\<close> for \<open>n \<ge> 1\<close>: the \<open>n\<close>-th element from the end, or \<open>IndexError\<close>.\<close>

definition iloc_back :: "'a list \<Rightarrow> nat \<Rightarrow> exn + 'a" where
  "iloc_back xs n =
     (if 1 \<le> n \<and> n \<le> length xs then Inr (xs ! (length xs - n)) else Inl IndexError)"

text \<open>\<open>float(v)\<close>.\<close>

fun py_float :: "world \<Rightarrow> pyval \<Rightarrow> exn + pyfloat" where
  "py_float w (VFloat x) = Inr x"
| "py_float w (VStr s) = (case float_of_str w s of Some x \<Rightarrow> Inr x | None \<Rightarrow> Inl ValueError)"
| "py_float w VNone = Inl TypeError"
| "py_float w (VDate y m d) = Inl TypeError"
| "py_float w (VDict d) = Inl TypeError"

text \<open>\<open>s is None or s.empty\<close>.\<close>

definition none_or_empty :: "series option \<Rightarrow> bool" where
  "none_or_empty s = (case s of None \<Rightarrow> True | Some obs \<Rightarrow> obs = [])"

definition safe_get_fred_series :: "world \<Rightarrow> string \<Rightarrow> exn + series option" where
  "safe_get_fred_series w series_id =
     try_except
       (ebind (fred_get_series w series_id) (\<lambda>s. Inr (Some s)))
       (\<lambda>e. Inr None)"

text \<open>\<open>_download_file\<close> returns \<open>True\<close>, or the \<open>None\<close> of \<open>_log_error\<close>, which its callers test as false.\<close>

definition download_file :: "world \<Rightarrow> string \<Rightarrow> string \<Rightarrow> exn + bool" where
  "download_file w url temp_filename =
     try_except
       (ebind (requests_get w url) (\<lambda>status_code.
          if status_code \<noteq> 200 then Inl (PlainException ''Failed to fetch data'')
          else Inr True))
       (\<lambda>e. Inr False)"

text \<open>\<open>upper\<close> and \<open>lower\<close> on the ASCII letters; every other character is left as it is.\<close>

definition upper_char :: "char \<Rightarrow> char" where
  "upper_char c =
     (let n = (of_char c :: nat) in if 97 \<le> n \<and> n \<le> 122 then char_of (n - 32) else c)"

definition lower_char :: "char \<Rightarrow> char" where
  "lower_char c =
     (let n = (of_char c :: nat) in if 65 \<le> n \<and> n \<le> 90 then char_of (n + 32) else c)"

fun starts_with :: "string \<Rightarrow> string \<Rightarrow> bool" where
  "starts_with [] s = True"
| "starts_with (c # cs) [] = False"
| "starts_with (c # cs) (d # ds) = (c = d \<and> starts_with cs ds)"

text \<open>\<open>kw in s\<close> on strings.\<close>

fun contains :: "string \<Rightarrow> string \<Rightarrow> bool" where
  "contains kw [] = (kw = [])"
| "contains kw (c # s) = (starts_with kw (c # s) \<or> contains kw s)"

text \<open>The first column whose name, in upper case, contains the keyword.\<close>

fun find_column :: "string \<Rightarrow> string list \<Rightarrow> string option" where
  "find_column kw [] = None"
| "find_column kw (col # cols) =
     (if contains kw (map upper_char col) then Some col else find_column kw cols)"

text \<open>\<open>df[name]\<close>: the cells of the first column of that name, or \<open>KeyError\<close>.\<close>

definition column :: "dataframe \<Rightarrow> string \<Rightarrow> exn + pyval list" where
  "column df name = (case map_of df name of None \<Rightarrow> Inl (KeyError name) | Some cells \<Rightarrow> Inr cells)"

definition is_na :: "pyval \<Rightarrow> bool" where
  "is_na v = (v = VNone \<or> v = VFloat NaN)"

definition dropna :: "pyval list \<Rightarrow> pyval list" where
  "dropna cells = filter (\<lambda>v. \<not> is_na v) cells"

text \<open>The position of the last cell that is not missing, if there is one.\<close>

fun last_valid_index :: "pyval list \<Rightarrow> nat option" where
  "last_valid_index [] = None"
| "last_valid_index (v # vs) =
     (case last_valid_index vs of
        Some i \<Rightarrow> Some (Suc i)
      | None \<Rightarrow> if is_na v then None else Some 0)"

definition cell :: "pyval list \<Rightarrow> nat \<Rightarrow> exn + pyval" where
  "cell cells i = (if i < length cells then Inr (cells ! i) else Inl IndexError)"

definition is_space :: "char \<Rightarrow> bool" where
  "is_space c = ((of_char c :: nat) \<in> {9, 10, 11, 12, 13, 32})"

definition strip :: "string \<Rightarrow> string" where
  "strip s = rev (dropWhile is_space (rev (dropWhile is_space s)))"

text \<open>\<open>round\<close> on a number: to the nearest integer, a tie going to the even one.\<close>

definition py_round :: "rat \<Rightarrow> int" where
  "py_round r =
     (let f = \<lfloor>r\<rfloor>; d = r - of_int f
      in if d < 1 / 2 then f else if 1 / 2 < d then f + 1 else if even f then f else f + 1)"

section \<open>The resolvers\<close>

definition get_ticker_info :: "world \<Rightarrow> string \<Rightarrow> string \<Rightarrow> string \<Rightarrow> exn + pyval" where
  "get_ticker_info w symbol description info_field =
     try_except
       (ebind (yf_info_get w symbol info_field) (\<lambda>v.
          if py_truthy v then ebind (py_float w v) (\<lambda>x. Inr (VFloat x))
          else Inr VNone))
       (\<lambda>e. Inr (log_error (''fetching '' @ description) e))"

definition get_pe_ratio :: "world \<Rightarrow> exn + pyval" where
  "get_pe_ratio w = get_ticker_info w ''VTI'' ''P/E ratio'' ''trailingPE''"

definition shiller_url :: string where
  "shiller_url = ''http://www.econ.yale.edu/~shiller/data/ie_data.xls''"

definition get_cape_ratio :: "world \<Rightarrow> exn + pyval" where
  "get_cape_ratio w =
     try_except
       (ebind (download_file w shiller_url ''shiller_temp.xls'') (\<lambda>ok.
          if \<not> ok then Inr VNone
          else
            ebind (read_excel w ''shiller_temp.xls'') (\<lambda>df.
              case find_column ''CAPE'' (map fst df) of
                None \<Rightarrow> Inl (PlainException ''Could not find CAPE column in the data'')
              | Some cape_column \<Rightarrow>
                  ebind (column df cape_column) (\<lambda>cells.
                  ebind (iloc_back (dropna cells) 1) (\<lambda>cape_value.
                    ebind (py_float w cape_value) (\<lambda>x. Inr (VFloat x)))))))
       (\<lambda>e. Inr (log_error ''fetching CAPE ratio'' e))"

definition get_credit_spreads :: "world \<Rightarrow> exn + pyval" where
  "get_credit_spreads w =
     try_except
       (ebind (safe_get_fred_series w ''BAA'') (\<lambda>baa_yield.
        ebind (safe_get_fred_series w ''DGS10'') (\<lambda>treasury_10y.
          if none_or_empty baa_yield \<or> none_or_empty treasury_10y
          then Inr (VDict [(''baa_yield'', VNone), (''treasury_10y'', VNone), (''baa_spread'', VNone)])
          else
            ebind (iloc_back (map snd (the baa_yield)) 1) (\<lambda>latest_baa.
            ebind (iloc_back (map snd (the treasury_10y)) 1) (\<lambda>latest_10y.
              let spread = fl_sub latest_baa latest_10y in
              ebind (py_int (fl_mul spread (Fin 100))) (\<lambda>basis_points.
                Inr (VDict [(''baa_yield'', VFloat latest_baa),
                            (''treasury_10y'', VFloat latest_10y),
                            (''baa_spread'', VFloat spread)])))))))
       (\<lambda>e. Inr (log_error ''calculating credit spreads'' e))"

definition get_market_to_gdp :: "world \<Rightarrow> exn + pyval" where
  "get_market_to_gdp w =
     try_except
       (ebind (safe_get_fred_series w ''DDDM01USA156NWDB'') (\<lambda>market_to_gdp.
          if none_or_empty market_to_gdp then Inr VNone
          else
            ebind (iloc_back (map snd (the market_to_gdp)) 1) (\<lambda>latest_value.
              Inr (VFloat latest_value))))
       (\<lambda>e. Inr (log_error ''fetching market to GDP ratio'' e))"

definition get_gdp_metrics :: "world \<Rightarrow> exn + pyval" where
  "get_gdp_metrics w =
     try_except
       (ebind (safe_get_fred_series w ''GDP'') (\<lambda>gdp.
        ebind (safe_get_fred_series w ''A191RL1Q225SBEA'') (\<lambda>gdp_growth.
          if none_or_empty gdp \<or> none_or_empty gdp_growth
          then Inr (VDict [(''gdp'', VNone), (''gdp_growth'', VNone)])
          else
            ebind (iloc_back (map snd (the gdp)) 1) (\<lambda>latest_gdp.
            ebind (iloc_back (map snd (the gdp_growth)) 1) (\<lambda>latest_gdp_growth.
              Inr (VDict [(''gdp'', VFloat latest_gdp),
                          (''gdp_growth'', VFloat latest_gdp_growth)]))))))
       (\<lambda>e. Inr (log_error ''fetching GDP metrics'' e))"

definition get_government_metrics :: "world \<Rightarrow> exn + pyval" where
  "get_government_metrics w =
     try_except
       (ebind (safe_get_fred_series w ''GFDEBTN'') (\<lambda>govt_debt.
        ebind (safe_get_fred_series w ''FYFSD'') (\<lambda>govt_deficit.
          if none_or_empty govt_debt \<or> none_or_empty govt_deficit
          then Inr (VDict [(''govt_debt'', VNone), (''govt_deficit'', VNone), (''debt_to_gdp'', VNone)])
          else
            ebind (iloc_back (map snd (the govt_debt)) 1) (\<lambda>latest_debt.
            ebind (iloc_back (map snd (the govt_deficit)) 1) (\<lambda>latest_deficit.
            ebind (safe_get_fred_series w ''GDP'') (\<lambda>gdp.
            ebind (if none_or_empty gdp then Inr VNone
                   else ebind (iloc_back (map snd (the gdp)) 1) (\<lambda>latest_gdp.
                          Inr (VFloat (fl_mul (fl_div latest_debt latest_gdp) (Fin 100)))))
              (\<lambda>debt_to_gdp.
                Inr (VDict [(''govt_debt'', VFloat latest_debt),
                            (''govt_deficit'', VFloat latest_deficit),
                            (''debt_to_gdp'', debt_to_gdp)]))))))))
       (\<lambda>e. Inr (log_error ''fetching government metrics'' e))"

definition get_10yr_yield :: "world \<Rightarrow> exn + pyval" where
  "get_10yr_yield w =
     try_except
       (ebind (safe_get_fred_series w ''DGS10'') (\<lambda>treasury_10y.
          if none_or_empty treasury_10y then Inr VNone
          else
            ebind (iloc_back (map snd (the treasury_10y)) 1) (\<lambda>latest_yield.
              Inr (VFloat latest_yield))))
       (\<lambda>e. Inr (log_error ''fetching 10-year Treasury yield'' e))"

definition get_inflation_rate :: "world \<Rightarrow> exn + pyval" where
  "get_inflation_rate w =
     try_except
       (ebind (safe_get_fred_series w ''CPIAUCSL'') (\<lambda>cpi.
          if none_or_empty cpi \<or> length (the cpi) < 13 then Inr VNone
          else
            ebind (iloc_back (map snd (the cpi)) 1) (\<lambda>latest_cpi.
            ebind (iloc_back (map snd (the cpi)) 13) (\<lambda>year_ago_cpi.
              let inflation_rate = fl_mul (fl_sub (fl_div latest_cpi year_ago_cpi) (Fin 1)) (Fin 100)
              in Inr (VFloat inflation_rate)))))
       (\<lambda>e. Inr (log_error ''calculating inflation rate'' e))"

definition get_asset_price :: "world \<Rightarrow> string \<Rightarrow> string \<Rightarrow> string \<Rightarrow> exn + pyval" where
  "get_asset_price w ticker_symbol asset_name unit =
     try_except
       (ebind (yf_info_get w ticker_symbol ''regularMarketPrice'') (\<lambda>price.
          if py_truthy price then ebind (py_float w price) (\<lambda>x. Inr (VFloat x))
          else Inr VNone))
       (\<lambda>e. Inr (log_error (''fetching '' @ asset_name @ '' price'') e))"

definition get_gold_price :: "world \<Rightarrow> exn + pyval" where
  "get_gold_price w = get_asset_price w ''GC=F'' ''Gold'' ''per troy ounce''"

definition get_bitcoin_price :: "world \<Rightarrow> exn + pyval" where
  "get_bitcoin_price w = get_asset_price w ''BTC-USD'' ''Bitcoin'' ''''"

definition get_wti_crude_price :: "world \<Rightarrow> exn + pyval" where
  "get_wti_crude_price w = get_asset_price w ''CL=F'' ''WTI Crude Oil'' ''per barrel''"

definition calculate_equity_risk_premium :: "world \<Rightarrow> exn + pyval" where
  "calculate_equity_risk_premium w =
     try_except
       (ebind (get_pe_ratio w) (\<lambda>pe_ratio.
          if \<not> py_truthy pe_ratio then Inr (VDict [(''value'', VNone)])
          else
            (case pe_ratio of
               VFloat pe \<Rightarrow>
                 if \<not> fl_less (Fin 0) pe then Inr (VDict [(''value'', VNone)])
                 else
                   (let earnings_yield = fl_mul (fl_div (Fin 1) pe) (Fin 100) in
                    ebind (get_10yr_yield w) (\<lambda>risk_free_rate.
                      case risk_free_rate of
                        VNone \<Rightarrow> Inr (VDict [(''value'', VNone)])
                      | VFloat rf \<Rightarrow>
                          Inr (VDict [(''value'', VFloat (fl_sub earnings_yield rf)),
                                      (''earnings_yield'', VFloat earnings_yield),
                                      (''risk_free_rate'', VFloat rf)])
                      | _ \<Rightarrow> Inl TypeError))
             | _ \<Rightarrow> Inl TypeError)))
       (\<lambda>e. Inr (log_error ''calculating equity risk premium'' e))"

text \<open>
  The conversion of the spreadsheet's cell to a number: \<open>float\<close>; when that raises
  \<open>ValueError\<close> or \<open>TypeError\<close> and the cell is a string, \<open>float\<close> again on the string
  without its percent signs and outer blanks, a second failure being raised anew; a cell
  that is neither a number nor a string is kept as it is.
\<close>

definition coerce_erp :: "world \<Rightarrow> pyval \<Rightarrow> exn + pyval" where
  "coerce_erp w erp_value =
     (case py_float w erp_value of
        Inr x \<Rightarrow> Inr (VFloat x)
      | Inl e \<Rightarrow>
          if e = ValueError \<or> e = TypeError then
            (case erp_value of
               VStr s \<Rightarrow>
                 (case py_float w (VStr (strip (filter (\<lambda>c. c \<noteq> CHR ''%'') s))) of
                    Inr x \<Rightarrow> Inr (VFloat x)
                  | Inl e' \<Rightarrow>
                      if e' = ValueError \<or> e' = TypeError
                      then Inl (PlainException ''Invalid ERP value format'')
                      else Inl e')
             | _ \<Rightarrow> Inr erp_value)
          else Inl e)"

definition damodaran_url :: string where
  "damodaran_url = ''https://pages.stern.nyu.edu/~adamodar/pc/implprem/ERPbymonth.xlsx''"

definition get_equity_risk_premium :: "world \<Rightarrow> exn + pyval" where
  "get_equity_risk_premium w =
     try_except
       (if \<not> openpyxl_installed w then calculate_equity_risk_premium w
        else
          ebind (download_file w damodaran_url ''damodaran_temp.xlsx'') (\<lambda>ok.
            if \<not> ok then calculate_equity_risk_premium w
            else
              ebind (read_excel w ''damodaran_temp.xlsx'') (\<lambda>df.
                case find_column ''ERP'' (map fst df) of
                  None \<Rightarrow> Inl (PlainException ''Could not find ERP column in the data'')
                | Some erp_column \<Rightarrow>
                    ebind (column df erp_column) (\<lambda>cells.
                      case last_valid_index cells of
                        None \<Rightarrow> Inl (KeyError ''None'')
                      | Some i \<Rightarrow>
                          ebind (cell cells i) (\<lambda>erp_value.
                          ebind (case df of [] \<Rightarrow> Inl IndexError | first # others \<Rightarrow> cell (snd first) i)
                            (\<lambda>last_date.
                          ebind (coerce_erp w erp_value) (\<lambda>erp_number.
                            Inr (VDict [(''value'', erp_number),
                                        (''date'', VStr (str_of w last_date))]))))))))
       (\<lambda>e. Inr (log_error ''fetching Damodaran's equity risk premium'' e))"

definition get_earnings_growth :: "world \<Rightarrow> exn + pyval" where
  "get_earnings_growth w =
     try_except
       (ebind (fred_get_series w ''CP'') (\<lambda>corporate_profits.
          if length corporate_profits < 5 then Inr (VDict [(''growth_rate'', VNone)])
          else
            ebind (iloc_back (map snd corporate_profits) 1) (\<lambda>recent_value.
            ebind (iloc_back (map snd corporate_profits) 5) (\<lambda>year_ago_value.
              if fl_le year_ago_value (Fin 0) then Inr (VDict [(''growth_rate'', VNone)])
              else
                (let growth_rate =
                       fl_mul (fl_sub (fl_div recent_value year_ago_value) (Fin 1)) (Fin 100) in
                 ebind (iloc_back (map fst corporate_profits) 1) (\<lambda>recent_date.
                 ebind (iloc_back (map fst corporate_profits) 5) (\<lambda>year_ago_date.
                   Inr (VDict [(''growth_rate'', VFloat growth_rate),
                               (''recent_value'', VFloat recent_value),
                               (''year_ago_value'', VFloat year_ago_value),
                               (''recent_date'', VStr recent_date),
                               (''year_ago_date'', VStr year_ago_date)]))))))))
       (\<lambda>e. Inr (log_error ''calculating earnings growth'' e))"

section \<open>The aggregator and the catalog\<close>

definition normalize_metric_name :: "string \<Rightarrow> string" where
  "normalize_metric_name metric_name =
     (if metric_name = ''US P/E Ratio'' then ''pe_ratio''
      else if metric_name = ''US CAPE Ratio'' then ''cape_ratio''
      else if metric_name = ''US Credit Spreads'' then ''credit_spreads''
      else if metric_name = ''US Stock Market / GDP'' then ''market_to_gdp''
      else if metric_name = ''US GDP'' then ''gdp''
      else if metric_name = ''US Government Debt & Deficit'' then ''government''
      else if metric_name = ''US 10-Year Yield'' then ''10yr_yield''
      else if metric_name = ''US Inflation Rate'' then ''inflation_rate''
      else if metric_name = ''US Equity Risk Premium'' then ''equity_risk_premium''
      else if metric_name = ''US Earnings Growth'' then ''earnings_growth''
      else if metric_name = ''Gold Price'' then ''gold_price''
      else if metric_name = ''Bitcoin Price'' then ''bitcoin_price''
      else if metric_name = ''WTI Crude Oil Price'' then ''wti_crude_price''
      else map (\<lambda>c. if c = CHR '' '' then CHR ''_'' else c) (map lower_char metric_name))"

type_synonym resolver = "world \<Rightarrow> exn + pyval"

type_synonym catalog = "(string \<times> resolver \<times> string) list"

text \<open>
  What one turn of the loop of \<open>get_all_metrics\<close> does with the outcome of the resolver:
  the three result formats of the \<open>try\<close> block, and the \<open>except\<close> clause.
\<close>

definition merge_result :: "pydict \<Rightarrow> string \<Rightarrow> exn + pyval \<Rightarrow> pydict" where
  "merge_result metrics metric_name outcome =
     (case outcome of
        Inl e \<Rightarrow> dict_set metrics (normalize_metric_name metric_name) VNone
      | Inr result \<Rightarrow>
          (case result of
             VDict d \<Rightarrow>
               (case map_of d ''value'' of
                  Some v \<Rightarrow> dict_set metrics (normalize_metric_name metric_name) v
                | None \<Rightarrow> fold (\<lambda>(key, v) acc. dict_set acc key v) d metrics)
           | _ \<Rightarrow> dict_set metrics (normalize_metric_name metric_name) result))"

fun all_metrics_loop :: "world \<Rightarrow> catalog \<Rightarrow> pydict \<Rightarrow> pydict" where
  "all_metrics_loop w [] metrics = metrics"
| "all_metrics_loop w ((metric_name, func, source) # rest) metrics =
     all_metrics_loop w rest
       (if metric_name \<noteq> ''US All Metrics'' then merge_result metrics metric_name (func w)
        else metrics)"

definition get_all_metrics_from :: "catalog \<Rightarrow> world \<Rightarrow> exn + pyval" where
  "get_all_metrics_from definitions w = Inr (VDict (all_metrics_loop w definitions []))"

text \<open>
  The catalog holds the aggregator as the resolver of its last entry, and the aggregator
  reads the catalog. The catalog is therefore given with that resolver as a parameter, and
  the aggregator is the loop over the catalog; the loop skips the last entry by its name, so
  the resolver put there is never called (lemma \<open>get_all_metrics_unfold\<close> below is the
  equation of the source).
\<close>

definition metric_definitions_with :: "resolver \<Rightarrow> catalog" where
  "metric_definitions_with all_metrics =
     [(''US P/E Ratio'', get_pe_ratio, ''Yahoo Finance - VTI (Total US Market)''),
      (''US CAPE Ratio'', get_cape_ratio, ''Robert Shiller's Dataset''),
      (''US Credit Spreads'', get_credit_spreads, ''FRED - Moody's BAA Corporate Bond''),
      (''US Stock Market / GDP'', get_market_to_gdp, ''FRED - Stock Market Capitalization to GDP''),
      (''US GDP'', get_gdp_metrics, ''FRED - Bureau of Economic Analysis''),
      (''US Government Debt & Deficit'', get_government_metrics, ''FRED - Treasury Department''),
      (''US 10-Year Yield'', get_10yr_yield, ''FRED - Treasury Department''),
      (''US Inflation Rate'', get_inflation_rate, ''FRED - Bureau of Labor Statistics''),
      (''US Equity Risk Premium'', get_equity_risk_premium, ''NYU Stern - Aswath Damodaran''),
      (''US Earnings Growth'', get_earnings_growth, ''FRED - Corporate Profits''),
      (''Gold Price'', get_gold_price, ''Yahoo Finance - Gold Futures (GC=F)''),
      (''Bitcoin Price'', get_bitcoin_price, ''Yahoo Finance - BTC-USD''),
      (''WTI Crude Oil Price'', get_wti_crude_price, ''Yahoo Finance - Crude Oil Futures (CL=F)''),
      (''US All Metrics'', all_metrics, ''Multiple Sources'')]"

definition get_all_metrics :: resolver where
  "get_all_metrics = get_all_metrics_from (metric_definitions_with (\<lambda>w. Inr VNone))"

definition get_metric_definitions :: catalog where
  "get_metric_definitions = metric_definitions_with get_all_metrics"

definition catalog_names :: "string list" where
  "catalog_names = map fst get_metric_definitions"

section \<open>Timestamps\<close>

definition series_last_date :: "world \<Rightarrow> string \<Rightarrow> exn + string" where
  "series_last_date w series_id =
     ebind (fred_get_series w series_id) (\<lambda>s. iloc_back (map fst s) 1)"

text \<open>
  The date of the last row of Shiller's sheet that has a CAPE value. A cell that is not a
  date is read as a decimal year: \<open>int\<close> gives the year, the rounded twelvefold of the
  fraction, plus one, the month; \<open>datetime(year, month, 1)\<close> raises outside the years 1 to
  9999 and the months 1 to 12. On a string or a missing cell \<open>int\<close> or the subtraction raises.
\<close>

definition shiller_last_date :: "world \<Rightarrow> exn + string" where
  "shiller_last_date w =
     ebind (read_excel w shiller_url) (\<lambda>df.
       ebind (column df ''CAPE'') (\<lambda>cape.
           (case last_valid_index cape of
              None \<Rightarrow> Inl (KeyError ''None'')
            | Some i \<Rightarrow>
                (ebind (column df ''Date'') (\<lambda>dates.
                     ebind (cell dates i) (\<lambda>last_date.
                       case last_date of
                         VDate y m d \<Rightarrow> Inr (strftime_ymd w y m d)
                       | VFloat x \<Rightarrow>
                           ebind (py_int x) (\<lambda>year.
                             case x of
                               Fin r \<Rightarrow>
                                 (let month = py_round ((r - of_int year) * 12) + 1 in
                                  if 1 \<le> year \<and> year \<le> 9999 \<and> 1 \<le> month \<and> month \<le> 12
                                  then Inr (strftime_ymd w year month 1)
                                  else Inl ValueError)
                             | _ \<Rightarrow> Inl ValueError)
                       | VStr s \<Rightarrow> Inl ValueError
                       | _ \<Rightarrow> Inl TypeError))))))"

text \<open>The body of the \<open>try\<close> block of \<open>get_timestamp_for_metric\<close>: the strategy of the indicator.\<close>

definition timestamp_strategy :: "world \<Rightarrow> string \<Rightarrow> exn + string" where
  "timestamp_strategy w metric_name =
     (if metric_name = ''US GDP'' then series_last_date w ''GDP''
      else if metric_name = ''US Government Debt & Deficit'' then series_last_date w ''GFDEBTN''
      else if metric_name = ''US Inflation Rate'' then series_last_date w ''CPIAUCSL''
      else if metric_name = ''US Credit Spreads'' then series_last_date w ''BAA''
      else if metric_name = ''US CAPE Ratio'' then
        try_except (shiller_last_date w) (\<lambda>e. series_last_date w ''CSUSHPINSA'')
      else Inr (today w))"

definition get_timestamp_for_metric :: "world \<Rightarrow> string \<Rightarrow> exn + string" where
  "get_timestamp_for_metric w metric_name =
     try_except (timestamp_strategy w metric_name) (\<lambda>e. Inr ''Date not available'')"

section \<open>One indicator by name\<close>

definition lookup_definition :: "catalog \<Rightarrow> string \<Rightarrow> exn + (resolver \<times> string)" where
  "lookup_definition metric_map metric_name =
     (case map_of metric_map metric_name of
        None \<Rightarrow> Inl (KeyError metric_name)
      | Some entry \<Rightarrow> Inr entry)"

definition get_metric_by_name ::
  "world \<Rightarrow> exporter \<Rightarrow> filesystem \<Rightarrow> string \<Rightarrow> exn + (pydict \<times> exporter \<times> filesystem)" where
  "get_metric_by_name w self fs metric_name =
     ebind (lookup_definition get_metric_definitions metric_name) (\<lambda>(func, source).
     ebind (func w) (\<lambda>raw.
     ebind (case raw of
              VDict d \<Rightarrow>
                ebind (get_timestamp_for_metric w metric_name) (\<lambda>ts.
                  Inr (dict_set (dict_set d ''timestamp'' (VStr ts)) ''source'' (VStr source)))
            | _ \<Rightarrow>
                Inr [(''value'', raw), (''timestamp'', VStr (today w)), (''source'', VStr source)])
       (\<lambda>result.
          if path_set (csv_export_path self)
          then ebind (export_to_csv w self fs metric_name result) (\<lambda>(self', fs').
                 Inr (result, self', fs'))
          else Inr (result, self, fs))))"

section \<open>The flattening rule in the specification's words\<close>

text \<open>
  The rows an entry of a group stands for: a nested entry gives one row per inner entry,
  named \<open><outerKey>_<innerKey>\<close>; a flat entry gives one row, named by its sub-key.
\<close>

definition spec_entry_rows :: "string \<times> pyval \<Rightarrow> (string \<times> pyval) list" where
  "spec_entry_rows e =
     (case snd e of
        VDict d \<Rightarrow> map (\<lambda>(inner, v). (fst e @ ''_'' @ inner, v)) d
      | _ \<Rightarrow> [(fst e, snd e)])"

definition sub_values :: "csv_row list \<Rightarrow> (string \<times> pyval) list" where
  "sub_values rows = map (\<lambda>r. (row_sub_metric r, row_value r)) rows"

section \<open>Sample worlds\<close>

text \<open>A world in which every provider call fails, and nothing is wrong with the sink.\<close>

definition failing_world :: world where
  "failing_world =
     \<lparr>today = ''2024-03-01'', now_stamp = ''2024-03-01 09:30:00'',
      yf_info_get = (\<lambda>symbol field. Inl (ProviderFault ''quote'')),
      fred_get_series = (\<lambda>series_id. Inl (ProviderFault ''series'')),
      requests_get = (\<lambda>url. Inl (ProviderFault ''http'')),
      read_excel = (\<lambda>source. Inl (ProviderFault ''spreadsheet'')),
      openpyxl_installed = True,
      float_of_str = (\<lambda>s. None),
      str_of = (\<lambda>v. []),
      strftime_ymd = (\<lambda>y m d. []),
      makedirs_fault = None,
      open_fault = None\<rparr>"

section \<open>Runs of the exporter\<close>

definition ok_exports :: "(world \<times> string \<times> pydict) list \<Rightarrow> (world \<times> string \<times> pydict) list" where
  "ok_exports es = filter (\<lambda>(w, metric_name, data). open_fault w = None) es"

definition data_lines :: "(world \<times> string \<times> pydict) list \<Rightarrow> csv_line list" where
  "data_lines es = concat (map (\<lambda>(w, metric_name, data). map DataLine (rows_to_write w metric_name data)) es)"

definition export_run ::
  "world \<Rightarrow> filesystem \<Rightarrow> string \<Rightarrow> (world \<times> string \<times> pydict) list \<Rightarrow> exn + (exporter \<times> filesystem)" where
  "export_run w0 fs p es = ebind (init w0 fs (Some p)) (\<lambda>self. export_all self fs es)"

definition faulty_sink_world :: world where
  "faulty_sink_world = failing_world\<lparr>open_fault := Some OSError\<rparr>"

definition no_files :: filesystem where
  "no_files = (\<lambda>p. None)"

definition sample_export :: "world \<times> string \<times> pydict" where
  "sample_export = (failing_world, ''US 10-Year Yield'',
     [(''value'', VNone), (''timestamp'', VStr ''2024-03-01''), (''source'', VStr ''FRED'')])"

section \<open>Notions the claims use\<close>

text \<open>The series is absent (the provider raises) or empty.\<close>

definition series_unavailable :: "world \<Rightarrow> string \<Rightarrow> bool" where
  "series_unavailable w series_id =
     (case fred_get_series w series_id of Inl e \<Rightarrow> True | Inr s \<Rightarrow> s = [])"

text \<open>Every call of a provider raises.\<close>

definition all_providers_fail :: "world \<Rightarrow> bool" where
  "all_providers_fail w =
     ((\<forall>symbol field. \<not> returns (yf_info_get w symbol field))
      \<and> (\<forall>series_id. \<not> returns (fred_get_series w series_id))
      \<and> (\<forall>url. \<not> returns (requests_get w url))
      \<and> (\<forall>source. \<not> returns (read_excel w source)))"

text \<open>
  The keys an indicator puts into the merged mapping, given the outcome of its resolver:
  the sub-keys of a group without a \<open>value\<close> entry, the normalized name otherwise.
\<close>

definition contributed_keys :: "string \<Rightarrow> exn + pyval \<Rightarrow> string list" where
  "contributed_keys metric_name outcome =
     (case outcome of
        Inr (VDict d) \<Rightarrow>
          if dict_has d ''value'' then [normalize_metric_name metric_name] else dict_keys d
      | _ \<Rightarrow> [normalize_metric_name metric_name])"

text \<open>A world whose statistical database answers as given, every other provider failing.\<close>

definition fred_world :: "(string \<Rightarrow> exn + series) \<Rightarrow> world" where
  "fred_world answers = failing_world\<lparr>fred_get_series := answers\<rparr>"

text \<open>Thirteen monthly observations, the first and the last as given.\<close>

definition monthly :: "pyfloat \<Rightarrow> pyfloat \<Rightarrow> series" where
  "monthly first_value last_value =
     [(''2023-01-01'', first_value), (''2023-02-01'', Fin 101), (''2023-03-01'', Fin 102),
      (''2023-04-01'', Fin 103), (''2023-05-01'', Fin 104), (''2023-06-01'', Fin 105),
      (''2023-07-01'', Fin 106), (''2023-08-01'', Fin 107), (''2023-09-01'', Fin 108),
      (''2023-10-01'', Fin 109), (''2023-11-01'', NaN), (''2023-12-01'', Fin 109),
      (''2024-01-01'', last_value)]"

text \<open>Five quarterly observations, the first and the last as given.\<close>

definition quarterly :: "pyfloat \<Rightarrow> pyfloat \<Rightarrow> series" where
  "quarterly first_value last_value =
     [(''2023-01-01'', first_value), (''2023-04-01'', Fin 3000), (''2023-07-01'', Fin 3100),
      (''2023-10-01'', Fin 3200), (''2024-01-01'', last_value)]"

section \<open>Shapes of outcomes\<close>

definition scalar_outcome :: "exn + pyval \<Rightarrow> bool" where
  "scalar_outcome r = (case r of Inr VNone \<Rightarrow> True | Inr (VFloat x) \<Rightarrow> True | _ \<Rightarrow> False)"

definition group_outcome :: "string list \<Rightarrow> exn + pyval \<Rightarrow> bool" where
  "group_outcome keys r = (case r of Inr VNone \<Rightarrow> True | Inr (VDict d) \<Rightarrow> dict_keys d = keys | _ \<Rightarrow> False)"

fun is_value_result :: "pyval \<Rightarrow> bool" where
  "is_value_result VNone = True"
| "is_value_result (VDict d) = dict_has d ''value''"
| "is_value_result v = False"

definition value_outcome :: "exn + pyval \<Rightarrow> bool" where
  "value_outcome r = (case r of Inr v \<Rightarrow> is_value_result v | Inl e \<Rightarrow> False)"

definition loop_keys :: "world \<Rightarrow> catalog \<Rightarrow> string set" where
  "loop_keys w definitions =
     (\<Union>(metric_name, func, source) \<in> set definitions.
        if metric_name \<noteq> ''US All Metrics'' then set (contributed_keys metric_name (func w)) else {})"

section \<open>Keys of the merged mapping, and a world for the fallback\<close>

text \<open>Every key that some indicator can put into the merged mapping.\<close>

definition merged_key_names :: "string list" where
  "merged_key_names =
     [''pe_ratio'', ''cape_ratio'', ''credit_spreads'', ''baa_yield'', ''treasury_10y'',
      ''baa_spread'', ''market_to_gdp'', ''gdp'', ''gdp_growth'', ''government'', ''govt_debt'',
      ''govt_deficit'', ''debt_to_gdp'', ''10yr_yield'', ''inflation_rate'',
      ''equity_risk_premium'', ''earnings_growth'', ''growth_rate'', ''recent_value'',
      ''year_ago_value'', ''recent_date'', ''year_ago_date'', ''gold_price'', ''bitcoin_price'',
      ''wti_crude_price'']"

text \<open>
  A world in which the quote provider knows the price-earnings ratio (20), the database
  knows the 10-year yield (4), and every other call fails: the equity risk premium comes
  from the fallback computation.
\<close>

definition fallback_world :: world where
  "fallback_world =
     failing_world
       \<lparr>yf_info_get := (\<lambda>symbol field.
          if symbol = ''VTI'' \<and> field = ''trailingPE'' then Inr (VFloat (Fin 20))
          else Inl (ProviderFault ''quote'')),
        fred_get_series := (\<lambda>series_id.
          if series_id = ''DGS10'' then Inr [(''2024-02-29'', Fin 4)]
          else Inl (ProviderFault ''series''))\<rparr>"

section \<open>Basic facts\<close>

lemma try_except_Inr [simp]: "try_except (Inr x) h = Inr x"
  by (simp add: try_except_def)

lemma try_except_Inl [simp]: "try_except (Inl e) h = h e"
  by (simp add: try_except_def)

lemma ebind_Inr [simp]: "ebind (Inr x) f = f x"
  by (simp add: ebind_def)

lemma ebind_Inl [simp]: "ebind (Inl e) f = Inl e"
  by (simp add: ebind_def)

lemma safe_get_fred_series_eq:
  "safe_get_fred_series w series_id =
     Inr (case fred_get_series w series_id of Inl e \<Rightarrow> None | Inr s \<Rightarrow> Some s)"
  by (cases "fred_get_series w series_id") (simp_all add: safe_get_fred_series_def)

lemma iloc_back_last:
  "xs \<noteq> [] \<Longrightarrow> iloc_back (map f xs) 1 = Inr (f (last xs))"
  by (simp add: iloc_back_def last_conv_nth Suc_leI)

lemma iloc_back_nth:
  "1 \<le> n \<Longrightarrow> n \<le> length xs \<Longrightarrow> iloc_back xs n = Inr (xs ! (length xs - n))"
  by (simp add: iloc_back_def)

section \<open>Facts about the resolvers and the loop\<close>

lemma returns_Inr [simp]: "returns (Inr x)"
  by (simp add: returns_def)

lemma returns_Inl [simp]: "\<not> returns (Inl e)"
  by (simp add: returns_def)

lemma returns_try_except: "(\<And>e. returns (h e)) \<Longrightarrow> returns (try_except body h)"
  by (cases body) simp_all

lemma ebind_eq_Inr: "ebind m f = Inr y \<longleftrightarrow> (\<exists>x. m = Inr x \<and> f x = Inr y)"
  by (cases m) simp_all

lemma scalar_try:
  assumes "\<And>v. body = Inr v \<Longrightarrow> v = VNone \<or> (\<exists>x. v = VFloat x)"
  shows "scalar_outcome (try_except body (\<lambda>e. Inr (log_error message e)))"
proof (cases body)
  case (Inl e)
  then show ?thesis by (simp add: scalar_outcome_def log_error_def)
next
  case (Inr v)
  with assms [of v] show ?thesis by (auto simp: scalar_outcome_def)
qed

lemma group_try:
  assumes "\<And>v. body = Inr v \<Longrightarrow> v = VNone \<or> (\<exists>d. v = VDict d \<and> dict_keys d = keys)"
  shows "group_outcome keys (try_except body (\<lambda>e. Inr (log_error message e)))"
proof (cases body)
  case (Inl e)
  then show ?thesis by (simp add: group_outcome_def log_error_def)
next
  case (Inr v)
  with assms [of v] show ?thesis by (auto simp: group_outcome_def)
qed

lemma get_ticker_info_scalar: "scalar_outcome (get_ticker_info w symbol description info_field)"
  unfolding get_ticker_info_def
  by (rule scalar_try) (auto simp: ebind_eq_Inr split: if_splits)

lemma get_asset_price_scalar: "scalar_outcome (get_asset_price w ticker_symbol asset_name unit)"
  unfolding get_asset_price_def
  by (rule scalar_try) (auto simp: ebind_eq_Inr split: if_splits)

lemma get_cape_ratio_scalar: "scalar_outcome (get_cape_ratio w)"
  unfolding get_cape_ratio_def
  by (rule scalar_try) (auto simp: ebind_eq_Inr split: if_splits option.splits)

lemma get_market_to_gdp_scalar: "scalar_outcome (get_market_to_gdp w)"
  unfolding get_market_to_gdp_def
  by (rule scalar_try) (auto simp: ebind_eq_Inr split: if_splits)

lemma get_10yr_yield_scalar: "scalar_outcome (get_10yr_yield w)"
  unfolding get_10yr_yield_def
  by (rule scalar_try) (auto simp: ebind_eq_Inr split: if_splits)

lemma get_inflation_rate_scalar: "scalar_outcome (get_inflation_rate w)"
  unfolding get_inflation_rate_def
  by (rule scalar_try) (auto simp: ebind_eq_Inr Let_def split: if_splits)

lemma get_credit_spreads_group:
  "group_outcome [''baa_yield'', ''treasury_10y'', ''baa_spread''] (get_credit_spreads w)"
  unfolding get_credit_spreads_def
  by (rule group_try) (auto simp: ebind_eq_Inr Let_def dict_keys_def split: if_splits)

lemma get_gdp_metrics_group: "group_outcome [''gdp'', ''gdp_growth''] (get_gdp_metrics w)"
  unfolding get_gdp_metrics_def
  by (rule group_try) (auto simp: ebind_eq_Inr Let_def dict_keys_def split: if_splits)

lemma get_government_metrics_group:
  "group_outcome [''govt_debt'', ''govt_deficit'', ''debt_to_gdp''] (get_government_metrics w)"
  unfolding get_government_metrics_def
  by (rule group_try) (auto simp: ebind_eq_Inr Let_def dict_keys_def split: if_splits)

lemma get_earnings_growth_group:
  "group_outcome [''growth_rate''] (get_earnings_growth w)
   \<or> group_outcome [''growth_rate'', ''recent_value'', ''year_ago_value'', ''recent_date'',
        ''year_ago_date''] (get_earnings_growth w)"
proof (cases "get_earnings_growth w")
  case (Inl e)
  then show ?thesis
    by (simp add: get_earnings_growth_def try_except_def split: sum.splits)
next
  case (Inr v)
  then show ?thesis
    by (auto simp: get_earnings_growth_def try_except_def ebind_eq_Inr Let_def dict_keys_def
        group_outcome_def log_error_def split: sum.splits if_splits)
qed

lemma value_try:
  assumes "\<And>v. body = Inr v \<Longrightarrow> is_value_result v"
  shows "value_outcome (try_except body (\<lambda>e. Inr (log_error message e)))"
proof (cases body)
  case (Inl e)
  then show ?thesis by (simp add: value_outcome_def log_error_def)
next
  case (Inr v)
  with assms [of v] show ?thesis by (simp add: value_outcome_def)
qed

lemma value_outcomeD: "value_outcome r \<Longrightarrow> r = Inr v \<Longrightarrow> is_value_result v"
  by (simp add: value_outcome_def)

lemma calculate_equity_risk_premium_value: "value_outcome (calculate_equity_risk_premium w)"
  unfolding calculate_equity_risk_premium_def
proof (rule value_try)
  fix v
  assume "ebind (get_pe_ratio w) (\<lambda>pe_ratio.
          if \<not> py_truthy pe_ratio then Inr (VDict [(''value'', VNone)])
          else
            (case pe_ratio of
               VFloat pe \<Rightarrow>
                 if \<not> fl_less (Fin 0) pe then Inr (VDict [(''value'', VNone)])
                 else
                   (let earnings_yield = fl_mul (fl_div (Fin 1) pe) (Fin 100) in
                    ebind (get_10yr_yield w) (\<lambda>risk_free_rate.
                      case risk_free_rate of
                        VNone \<Rightarrow> Inr (VDict [(''value'', VNone)])
                      | VFloat rf \<Rightarrow>
                          Inr (VDict [(''value'', VFloat (fl_sub earnings_yield rf)),
                                      (''earnings_yield'', VFloat earnings_yield),
                                      (''risk_free_rate'', VFloat rf)])
                      | _ \<Rightarrow> Inl TypeError))
             | _ \<Rightarrow> Inl TypeError)) = Inr v"
  then obtain pe_ratio where
    body: "(if \<not> py_truthy pe_ratio then Inr (VDict [(''value'', VNone)])
          else
            (case pe_ratio of
               VFloat pe \<Rightarrow>
                 if \<not> fl_less (Fin 0) pe then Inr (VDict [(''value'', VNone)])
                 else
                   (let earnings_yield = fl_mul (fl_div (Fin 1) pe) (Fin 100) in
                    ebind (get_10yr_yield w) (\<lambda>risk_free_rate.
                      case risk_free_rate of
                        VNone \<Rightarrow> Inr (VDict [(''value'', VNone)])
                      | VFloat rf \<Rightarrow>
                          Inr (VDict [(''value'', VFloat (fl_sub earnings_yield rf)),
                                      (''earnings_yield'', VFloat earnings_yield),
                                      (''risk_free_rate'', VFloat rf)])
                      | _ \<Rightarrow> Inl TypeError))
             | _ \<Rightarrow> Inl TypeError)) = Inr v"
    unfolding ebind_eq_Inr by blast
  show "is_value_result v"
  proof (cases "py_truthy pe_ratio")
    case False
    with body show ?thesis by (auto simp: dict_has_def)
  next
    case True
    show ?thesis
    proof (cases pe_ratio)
      case (VFloat pe)
      show ?thesis
      proof (cases "fl_less (Fin 0) pe")
        case False
        with body True VFloat show ?thesis by (auto simp: dict_has_def)
      next
        case pos: True
        with body True VFloat obtain risk_free_rate where
          rf: "(case risk_free_rate of
                        VNone \<Rightarrow> Inr (VDict [(''value'', VNone)])
                      | VFloat rf \<Rightarrow>
                          Inr (VDict [(''value'', VFloat (fl_sub (fl_mul (fl_div (Fin 1) pe) (Fin 100)) rf)),
                                      (''earnings_yield'', VFloat (fl_mul (fl_div (Fin 1) pe) (Fin 100))),
                                      (''risk_free_rate'', VFloat rf)])
                      | _ \<Rightarrow> Inl TypeError) = Inr v"
          by (auto simp: ebind_eq_Inr Let_def)
        then show ?thesis
          by (cases risk_free_rate) (auto simp: dict_has_def)
      qed
    qed (use body True in simp_all)
  qed
qed

lemma get_equity_risk_premium_value: "value_outcome (get_equity_risk_premium w)"
  unfolding get_equity_risk_premium_def
proof (rule value_try)
  fix v
  let ?primary = "\<lambda>df. case find_column ''ERP'' (map fst df) of
                  None \<Rightarrow> Inl (PlainException ''Could not find ERP column in the data'')
                | Some erp_column \<Rightarrow>
                    ebind (column df erp_column) (\<lambda>cells.
                      case last_valid_index cells of
                        None \<Rightarrow> Inl (KeyError ''None'')
                      | Some i \<Rightarrow>
                          ebind (cell cells i) (\<lambda>erp_value.
                          ebind (case df of [] \<Rightarrow> Inl IndexError | first # others \<Rightarrow> cell (snd first) i)
                            (\<lambda>last_date.
                          ebind (coerce_erp w erp_value) (\<lambda>erp_number.
                            Inr (VDict [(''value'', erp_number),
                                        (''date'', VStr (str_of w last_date))])))))"
  have primary: "is_value_result v" if "?primary df = Inr v" for df
    using that
    by (auto simp: ebind_eq_Inr dict_has_def split: option.splits)
  have fallback: "is_value_result v" if "calculate_equity_risk_premium w = Inr v"
    using that calculate_equity_risk_premium_value by (rule value_outcomeD [rotated])
  assume "(if \<not> openpyxl_installed w then calculate_equity_risk_premium w
        else
          ebind (download_file w damodaran_url ''damodaran_temp.xlsx'') (\<lambda>ok.
            if \<not> ok then calculate_equity_risk_premium w
            else ebind (read_excel w ''damodaran_temp.xlsx'') ?primary)) = Inr v"
  then show "is_value_result v"
    by (auto simp: ebind_eq_Inr split: if_splits intro: primary fallback)
qed

lemma dict_keys_dict_set: "set (dict_keys (dict_set m k v)) = insert k (set (dict_keys m))"
  by (simp add: dict_keys_def dict_set_def dom_update)

lemma map_of_dict_set: "map_of (dict_set m k v) = (map_of m)(k \<mapsto> v)"
  by (simp add: dict_set_def update_conv')

lemma dict_keys_fold:
  "set (dict_keys (fold (\<lambda>(key, v) acc. dict_set acc key v) d m))
     = set (dict_keys d) \<union> set (dict_keys m)"
proof (induction d arbitrary: m)
  case Nil
  show ?case by (simp add: dict_keys_def)
next
  case (Cons e d)
  obtain k v where e: "e = (k, v)" by (cases e)
  have "set (dict_keys ((k, v) # d)) = insert k (set (dict_keys d))"
    by (simp add: dict_keys_def)
  then show ?case
    by (simp add: e Cons.IH dict_keys_dict_set)
qed

lemma map_of_fold:
  "k \<notin> set (dict_keys d) \<Longrightarrow>
     map_of (fold (\<lambda>(key, v) acc. dict_set acc key v) d m) k = map_of m k"
proof (induction d arbitrary: m)
  case Nil
  show ?case by simp
next
  case (Cons e d)
  obtain k' v where e: "e = (k', v)" by (cases e)
  with Cons.prems have "k \<noteq> k'" "k \<notin> set (dict_keys d)"
    by (simp_all add: dict_keys_def)
  then show ?case
    by (simp add: e Cons.IH map_of_dict_set)
qed

lemma dict_keys_merge_result:
  "set (dict_keys (merge_result m n r)) = set (contributed_keys n r) \<union> set (dict_keys m)"
proof (cases r)
  case (Inl e)
  then show ?thesis
    by (simp add: merge_result_def contributed_keys_def dict_keys_dict_set)
next
  case (Inr v)
  then show ?thesis
    by (cases v)
      (auto simp: merge_result_def contributed_keys_def dict_keys_dict_set dict_keys_fold
        dict_has_def split: option.splits)
qed

lemma map_of_merge_result:
  assumes "k \<notin> set (contributed_keys n r)"
  shows "map_of (merge_result m n r) k = map_of m k"
proof (cases r)
  case (Inl e)
  with assms show ?thesis
    by (simp add: merge_result_def contributed_keys_def map_of_dict_set)
next
  case (Inr v)
  with assms show ?thesis
    by (cases v)
      (auto simp: merge_result_def contributed_keys_def map_of_dict_set map_of_fold
        dict_has_def split: option.splits)
qed

lemma loop_keys_Nil: "loop_keys w [] = {}"
  by (simp add: loop_keys_def)

lemma loop_keys_Cons:
  "loop_keys w ((n, f, s) # rest) =
     (if n \<noteq> ''US All Metrics'' then set (contributed_keys n (f w)) else {}) \<union> loop_keys w rest"
  by (simp add: loop_keys_def)

lemma dict_keys_loop:
  "set (dict_keys (all_metrics_loop w definitions m)) = set (dict_keys m) \<union> loop_keys w definitions"
proof (induction definitions arbitrary: m)
  case Nil
  show ?case by (simp add: loop_keys_Nil)
next
  case (Cons e rest)
  obtain n f s where e: "e = (n, f, s)" by (cases e)
  show ?case
    by (auto simp: e Cons.IH loop_keys_Cons dict_keys_merge_result)
qed

lemma map_of_loop:
  "k \<notin> loop_keys w definitions \<Longrightarrow> map_of (all_metrics_loop w definitions m) k = map_of m k"
proof (induction definitions arbitrary: m)
  case Nil
  show ?case by simp
next
  case (Cons e rest)
  obtain n f s where e: "e = (n, f, s)" by (cases e)
  from Cons.prems have "k \<notin> loop_keys w rest"
    and "n \<noteq> ''US All Metrics'' \<Longrightarrow> k \<notin> set (contributed_keys n (f w))"
    by (auto simp: e loop_keys_Cons)
  then show ?case
    by (simp add: e Cons.IH map_of_merge_result)
qed

lemma all_metrics_loop_append:
  "all_metrics_loop w (xs @ ys) m = all_metrics_loop w ys (all_metrics_loop w xs m)"
proof (induction xs arbitrary: m)
  case Nil
  show ?case by simp
next
  case (Cons e xs)
  obtain n f s where e: "e = (n, f, s)" by (cases e)
  show ?case by (simp add: e Cons.IH)
qed

lemma contributed_keys_scalar:
  "scalar_outcome r \<Longrightarrow> contributed_keys n r = [normalize_metric_name n]"
  by (auto simp: scalar_outcome_def contributed_keys_def split: sum.splits pyval.splits)

lemma contributed_keys_value:
  "value_outcome r \<Longrightarrow> contributed_keys n r = [normalize_metric_name n]"
  by (auto simp: value_outcome_def contributed_keys_def split: sum.splits pyval.splits)

lemma contributed_keys_group:
  "group_outcome keys r \<Longrightarrow>
     contributed_keys n r = [normalize_metric_name n] \<or> contributed_keys n r = keys"
  by (auto simp: group_outcome_def contributed_keys_def split: sum.splits pyval.splits)

lemma not_returns: "\<not> returns r \<longleftrightarrow> (\<exists>e. r = Inl e)"
  by (cases r) simp_all

lemma returns_iff: "returns r \<longleftrightarrow> (\<exists>x. r = Inr x)"
  by (cases r) simp_all

lemma scalar_returns: "scalar_outcome r \<Longrightarrow> returns r"
  by (cases r) (simp_all add: scalar_outcome_def)

lemma group_returns: "group_outcome keys r \<Longrightarrow> returns r"
  by (cases r) (simp_all add: group_outcome_def)

lemma value_returns: "value_outcome r \<Longrightarrow> returns r"
  by (cases r) (simp_all add: value_outcome_def)

lemma get_all_metrics_from_returns: "returns (get_all_metrics_from definitions w)"
  by (simp add: get_all_metrics_from_def)

lemma get_earnings_growth_returns: "returns (get_earnings_growth w)"
  using get_earnings_growth_group [of w] by (auto dest: group_returns)

lemmas resolver_returns =
  scalar_returns [OF get_ticker_info_scalar] scalar_returns [OF get_asset_price_scalar]
  scalar_returns [OF get_cape_ratio_scalar] scalar_returns [OF get_market_to_gdp_scalar]
  scalar_returns [OF get_10yr_yield_scalar] scalar_returns [OF get_inflation_rate_scalar]
  group_returns [OF get_credit_spreads_group] group_returns [OF get_gdp_metrics_group]
  group_returns [OF get_government_metrics_group] value_returns [OF get_equity_risk_premium_value]
  get_earnings_growth_returns get_all_metrics_from_returns

lemma catalog_returns:
  "(n, f, s) \<in> set get_metric_definitions \<Longrightarrow> returns (f w)"
  unfolding get_metric_definitions_def metric_definitions_with_def
  by (auto simp: get_pe_ratio_def get_gold_price_def get_bitcoin_price_def
      get_wti_crude_price_def get_all_metrics_def resolver_returns)

lemma get_timestamp_for_metric_returns: "returns (get_timestamp_for_metric w n)"
  unfolding get_timestamp_for_metric_def by (rule returns_try_except) simp

lemma export_to_csv_returns: "returns (export_to_csv w self fs m d)"
  unfolding export_to_csv_def by (auto intro: returns_try_except split: option.splits)

lemma lookup_definition_found:
  assumes "n \<in> set (map fst c)"
  shows "\<exists>f s. lookup_definition c n = Inr (f, s) \<and> (n, f, s) \<in> set c"
proof -
  from assms obtain entry where "map_of c n = Some entry"
    by (cases "map_of c n") (auto simp: map_of_eq_None_iff)
  moreover from this have "(n, entry) \<in> set c" by (rule map_of_SomeD)
  ultimately show ?thesis
    by (cases entry) (simp add: lookup_definition_def)
qed

lemma lookup_definition_missing:
  assumes "n \<notin> set (map fst c)"
  shows "lookup_definition c n = Inl (KeyError n)"
proof -
  from assms have "map_of c n = None" by (simp add: map_of_eq_None_iff)
  then show ?thesis by (simp add: lookup_definition_def)
qed

section \<open>Facts about the aggregator\<close>

lemma all_metrics_loop_skips_aggregate:
  "all_metrics_loop w (metric_definitions_with f) m = all_metrics_loop w (metric_definitions_with g) m"
  by (simp add: metric_definitions_with_def)

lemma get_all_metrics_unfold: "get_all_metrics w = get_all_metrics_from get_metric_definitions w"
  unfolding get_all_metrics_def get_all_metrics_from_def get_metric_definitions_def
  using all_metrics_loop_skips_aggregate [of w "\<lambda>w. Inr VNone" "[]"] by simp

lemma get_all_metrics_loop:
  "get_all_metrics w = Inr (VDict (all_metrics_loop w get_metric_definitions []))"
  by (simp add: get_all_metrics_unfold get_all_metrics_from_def)

lemma contributed_in_loop_keys:
  assumes "(n, f, s) \<in> set definitions" "n \<noteq> ''US All Metrics''"
  shows "set (contributed_keys n (f w)) \<subseteq> loop_keys w definitions"
proof -
  have "set (contributed_keys n (f w)) \<subseteq>
      (case (n, f, s) of (metric_name, func, source) \<Rightarrow>
        if metric_name \<noteq> ''US All Metrics'' then set (contributed_keys metric_name (func w)) else {})"
    using assms(2) by simp
  also have "\<dots> \<subseteq> loop_keys w definitions"
    unfolding loop_keys_def using assms(1) by (rule UN_upper)
  finally show ?thesis .
qed

lemma all_fail_yf:
  assumes "all_providers_fail w"
  shows "get_ticker_info w symbol description field = Inr VNone"
    and "get_asset_price w symbol asset_name unit = Inr VNone"
proof -
  from assms obtain e where "yf_info_get w symbol field = Inl e"
    unfolding all_providers_fail_def not_returns by blast
  then show "get_ticker_info w symbol description field = Inr VNone"
    by (simp add: get_ticker_info_def log_error_def)
  from assms obtain e' where "yf_info_get w symbol ''regularMarketPrice'' = Inl e'"
    unfolding all_providers_fail_def not_returns by blast
  then show "get_asset_price w symbol asset_name unit = Inr VNone"
    by (simp add: get_asset_price_def log_error_def)
qed

lemma all_fail_fred:
  assumes "all_providers_fail w"
  shows "safe_get_fred_series w series_id = Inr None"
proof -
  from assms obtain e where "fred_get_series w series_id = Inl e"
    unfolding all_providers_fail_def not_returns by blast
  then show ?thesis by (simp add: safe_get_fred_series_eq)
qed

lemma all_fail_download:
  assumes "all_providers_fail w"
  shows "download_file w url temp_filename = Inr False"
proof -
  from assms obtain e where "requests_get w url = Inl e"
    unfolding all_providers_fail_def not_returns by blast
  then show ?thesis by (simp add: download_file_def)
qed

lemma all_fail_earnings:
  assumes "all_providers_fail w"
  shows "get_earnings_growth w = Inr VNone"
proof -
  from assms obtain e where "fred_get_series w ''CP'' = Inl e"
    unfolding all_providers_fail_def not_returns by blast
  then show ?thesis by (simp add: get_earnings_growth_def log_error_def)
qed

lemma all_fail_resolvers:
  assumes "all_providers_fail w"
  shows "get_pe_ratio w = Inr VNone"
    and "get_cape_ratio w = Inr VNone"
    and "get_credit_spreads w =
      Inr (VDict [(''baa_yield'', VNone), (''treasury_10y'', VNone), (''baa_spread'', VNone)])"
    and "get_market_to_gdp w = Inr VNone"
    and "get_gdp_metrics w = Inr (VDict [(''gdp'', VNone), (''gdp_growth'', VNone)])"
    and "get_government_metrics w =
      Inr (VDict [(''govt_debt'', VNone), (''govt_deficit'', VNone), (''debt_to_gdp'', VNone)])"
    and "get_10yr_yield w = Inr VNone"
    and "get_inflation_rate w = Inr VNone"
    and "get_equity_risk_premium w = Inr (VDict [(''value'', VNone)])"
    and "get_gold_price w = Inr VNone"
    and "get_bitcoin_price w = Inr VNone"
    and "get_wti_crude_price w = Inr VNone"
proof -
  note f = all_fail_fred [OF assms] all_fail_yf [OF assms] all_fail_download [OF assms]
  show pe: "get_pe_ratio w = Inr VNone" by (simp add: get_pe_ratio_def f)
  show "get_cape_ratio w = Inr VNone" by (simp add: get_cape_ratio_def f)
  show "get_credit_spreads w =
      Inr (VDict [(''baa_yield'', VNone), (''treasury_10y'', VNone), (''baa_spread'', VNone)])"
    by (simp add: get_credit_spreads_def f none_or_empty_def)
  show "get_market_to_gdp w = Inr VNone" by (simp add: get_market_to_gdp_def f none_or_empty_def)
  show "get_gdp_metrics w = Inr (VDict [(''gdp'', VNone), (''gdp_growth'', VNone)])"
    by (simp add: get_gdp_metrics_def f none_or_empty_def)
  show "get_government_metrics w =
      Inr (VDict [(''govt_debt'', VNone), (''govt_deficit'', VNone), (''debt_to_gdp'', VNone)])"
    by (simp add: get_government_metrics_def f none_or_empty_def)
  show "get_10yr_yield w = Inr VNone" by (simp add: get_10yr_yield_def f none_or_empty_def)
  show "get_inflation_rate w = Inr VNone" by (simp add: get_inflation_rate_def f none_or_empty_def)
  have "calculate_equity_risk_premium w = Inr (VDict [(''value'', VNone)])"
    by (simp add: calculate_equity_risk_premium_def pe)
  then show "get_equity_risk_premium w = Inr (VDict [(''value'', VNone)])"
    by (simp add: get_equity_risk_premium_def f)
  show "get_gold_price w = Inr VNone" by (simp add: get_gold_price_def f)
  show "get_bitcoin_price w = Inr VNone" by (simp add: get_bitcoin_price_def f)
  show "get_wti_crude_price w = Inr VNone" by (simp add: get_wti_crude_price_def f)
qed

lemma all_fail_metrics:
  assumes "all_providers_fail w"
  shows "get_all_metrics w =
    Inr (VDict [(''pe_ratio'', VNone), (''cape_ratio'', VNone), (''baa_yield'', VNone),
      (''treasury_10y'', VNone), (''baa_spread'', VNone), (''market_to_gdp'', VNone),
      (''gdp'', VNone), (''gdp_growth'', VNone), (''govt_debt'', VNone),
      (''govt_deficit'', VNone), (''debt_to_gdp'', VNone), (''10yr_yield'', VNone),
      (''inflation_rate'', VNone), (''equity_risk_premium'', VNone),
      (''earnings_growth'', VNone), (''gold_price'', VNone), (''bitcoin_price'', VNone),
      (''wti_crude_price'', VNone)])"
  by (simp add: get_all_metrics_def get_all_metrics_from_def metric_definitions_with_def
      all_fail_resolvers [OF assms] all_fail_earnings [OF assms] merge_result_def
      normalize_metric_name_def dict_set_def)

lemma scalar_keys:
  "contributed_keys ''US P/E Ratio'' (get_pe_ratio w) = [''pe_ratio'']"
  "contributed_keys ''US CAPE Ratio'' (get_cape_ratio w) = [''cape_ratio'']"
  "contributed_keys ''US Stock Market / GDP'' (get_market_to_gdp w) = [''market_to_gdp'']"
  "contributed_keys ''US 10-Year Yield'' (get_10yr_yield w) = [''10yr_yield'']"
  "contributed_keys ''US Inflation Rate'' (get_inflation_rate w) = [''inflation_rate'']"
  "contributed_keys ''US Equity Risk Premium'' (get_equity_risk_premium w) = [''equity_risk_premium'']"
  "contributed_keys ''Gold Price'' (get_gold_price w) = [''gold_price'']"
  "contributed_keys ''Bitcoin Price'' (get_bitcoin_price w) = [''bitcoin_price'']"
  "contributed_keys ''WTI Crude Oil Price'' (get_wti_crude_price w) = [''wti_crude_price'']"
  by (simp_all add: get_pe_ratio_def get_gold_price_def get_bitcoin_price_def
      get_wti_crude_price_def
      contributed_keys_scalar [OF get_ticker_info_scalar]
      contributed_keys_scalar [OF get_asset_price_scalar]
      contributed_keys_scalar [OF get_cape_ratio_scalar]
      contributed_keys_scalar [OF get_market_to_gdp_scalar]
      contributed_keys_scalar [OF get_10yr_yield_scalar]
      contributed_keys_scalar [OF get_inflation_rate_scalar]
      contributed_keys_value [OF get_equity_risk_premium_value]
      normalize_metric_name_def)

lemma credit_keys:
  "contributed_keys ''US Credit Spreads'' (get_credit_spreads w) = [''credit_spreads'']
   \<or> contributed_keys ''US Credit Spreads'' (get_credit_spreads w)
       = [''baa_yield'', ''treasury_10y'', ''baa_spread'']"
  using contributed_keys_group [OF get_credit_spreads_group, of "''US Credit Spreads''" w]
  by (simp add: normalize_metric_name_def)

lemma gdp_keys:
  "contributed_keys ''US GDP'' (get_gdp_metrics w) = [''gdp'']
   \<or> contributed_keys ''US GDP'' (get_gdp_metrics w) = [''gdp'', ''gdp_growth'']"
  using contributed_keys_group [OF get_gdp_metrics_group, of "''US GDP''" w]
  by (simp add: normalize_metric_name_def)

lemma government_keys:
  "contributed_keys ''US Government Debt & Deficit'' (get_government_metrics w) = [''government'']
   \<or> contributed_keys ''US Government Debt & Deficit'' (get_government_metrics w)
       = [''govt_debt'', ''govt_deficit'', ''debt_to_gdp'']"
  using contributed_keys_group [OF get_government_metrics_group, of "''US Government Debt & Deficit''" w]
  by (simp add: normalize_metric_name_def)

lemma earnings_keys:
  "contributed_keys ''US Earnings Growth'' (get_earnings_growth w) = [''earnings_growth'']
   \<or> contributed_keys ''US Earnings Growth'' (get_earnings_growth w) = [''growth_rate'']
   \<or> contributed_keys ''US Earnings Growth'' (get_earnings_growth w)
       = [''growth_rate'', ''recent_value'', ''year_ago_value'', ''recent_date'', ''year_ago_date'']"
  using get_earnings_growth_group [of w]
    contributed_keys_group [of "[''growth_rate'']" "get_earnings_growth w" "''US Earnings Growth''"]
    contributed_keys_group [of "[''growth_rate'', ''recent_value'', ''year_ago_value'',
      ''recent_date'', ''year_ago_date'']" "get_earnings_growth w" "''US Earnings Growth''"]
  by (auto simp: normalize_metric_name_def)

lemma group_keys_known:
  "set (contributed_keys ''US Credit Spreads'' (get_credit_spreads w)) \<subseteq> set merged_key_names"
  "set (contributed_keys ''US GDP'' (get_gdp_metrics w)) \<subseteq> set merged_key_names"
  "set (contributed_keys ''US Government Debt & Deficit'' (get_government_metrics w))
     \<subseteq> set merged_key_names"
  "set (contributed_keys ''US Earnings Growth'' (get_earnings_growth w)) \<subseteq> set merged_key_names"
proof -
  show "set (contributed_keys ''US Credit Spreads'' (get_credit_spreads w)) \<subseteq> set merged_key_names"
    using credit_keys [of w] by (auto simp: merged_key_names_def)
  show "set (contributed_keys ''US GDP'' (get_gdp_metrics w)) \<subseteq> set merged_key_names"
    using gdp_keys [of w] by (auto simp: merged_key_names_def)
  show "set (contributed_keys ''US Government Debt & Deficit'' (get_government_metrics w))
     \<subseteq> set merged_key_names"
    using government_keys [of w] by (auto simp: merged_key_names_def)
  show "set (contributed_keys ''US Earnings Growth'' (get_earnings_growth w)) \<subseteq> set merged_key_names"
    using earnings_keys [of w] by (auto simp: merged_key_names_def)
qed

lemma catalog_loop_keys:
  "loop_keys w (metric_definitions_with f) =
     set (contributed_keys ''US P/E Ratio'' (get_pe_ratio w))
     \<union> set (contributed_keys ''US CAPE Ratio'' (get_cape_ratio w))
     \<union> set (contributed_keys ''US Credit Spreads'' (get_credit_spreads w))
     \<union> set (contributed_keys ''US Stock Market / GDP'' (get_market_to_gdp w))
     \<union> set (contributed_keys ''US GDP'' (get_gdp_metrics w))
     \<union> set (contributed_keys ''US Government Debt & Deficit'' (get_government_metrics w))
     \<union> set (contributed_keys ''US 10-Year Yield'' (get_10yr_yield w))
     \<union> set (contributed_keys ''US Inflation Rate'' (get_inflation_rate w))
     \<union> set (contributed_keys ''US Equity Risk Premium'' (get_equity_risk_premium w))
     \<union> set (contributed_keys ''US Earnings Growth'' (get_earnings_growth w))
     \<union> set (contributed_keys ''Gold Price'' (get_gold_price w))
     \<union> set (contributed_keys ''Bitcoin Price'' (get_bitcoin_price w))
     \<union> set (contributed_keys ''WTI Crude Oil Price'' (get_wti_crude_price w))"
  by (simp add: metric_definitions_with_def loop_keys_Cons loop_keys_Nil Un_assoc)

lemma catalog_keys_known: "loop_keys w (metric_definitions_with f) \<subseteq> set merged_key_names"
proof -
  have "set [''pe_ratio'', ''cape_ratio'', ''market_to_gdp'', ''10yr_yield'', ''inflation_rate'',
      ''equity_risk_premium'', ''gold_price'', ''bitcoin_price'', ''wti_crude_price'']
      \<subseteq> set merged_key_names"
    by (simp add: merged_key_names_def)
  with group_keys_known [of w] show ?thesis
    unfolding catalog_loop_keys scalar_keys by auto
qed

lemma get_all_metrics_keys:
  "get_all_metrics w = Inr (VDict (all_metrics_loop w get_metric_definitions []))
   \<and> set (dict_keys (all_metrics_loop w get_metric_definitions []))
       = loop_keys w get_metric_definitions"
  by (simp add: get_all_metrics_loop dict_keys_loop) (simp add: dict_keys_def)

lemma all_metrics_loop_entry:
  "n \<noteq> ''US All Metrics'' \<Longrightarrow>
     all_metrics_loop w (before @ (n, f, s) # after) m =
       all_metrics_loop w after (merge_result (all_metrics_loop w before m) n (f w))"
  by (simp add: all_metrics_loop_append)

lemma after_premium_keys:
  "''equity_risk_premium'' \<notin> loop_keys w
     [(''US Earnings Growth'', get_earnings_growth, ''FRED - Corporate Profits''),
      (''Gold Price'', get_gold_price, ''Yahoo Finance - Gold Futures (GC=F)''),
      (''Bitcoin Price'', get_bitcoin_price, ''Yahoo Finance - BTC-USD''),
      (''WTI Crude Oil Price'', get_wti_crude_price, ''Yahoo Finance - Crude Oil Futures (CL=F)''),
      (''US All Metrics'', f, ''Multiple Sources'')]"
  using earnings_keys [of w]
  by (auto simp: loop_keys_Cons loop_keys_Nil scalar_keys)

lemma premium_lookup:
  assumes "map_of d ''value'' = Some v"
  shows "map_of (merge_result m ''US Equity Risk Premium'' (Inr (VDict d))) ''equity_risk_premium''
    = Some v"
  using assms by (simp add: merge_result_def map_of_dict_set normalize_metric_name_def)

lemma premium_entry_kept:
  assumes "get_equity_risk_premium w = Inr (VDict d)" "map_of d ''value'' = Some v"
  shows "map_of (all_metrics_loop w get_metric_definitions []) ''equity_risk_premium'' = Some v"
proof -
  let ?before = "[(''US P/E Ratio'', get_pe_ratio, ''Yahoo Finance - VTI (Total US Market)''),
      (''US CAPE Ratio'', get_cape_ratio, ''Robert Shiller's Dataset''),
      (''US Credit Spreads'', get_credit_spreads, ''FRED - Moody's BAA Corporate Bond''),
      (''US Stock Market / GDP'', get_market_to_gdp, ''FRED - Stock Market Capitalization to GDP''),
      (''US GDP'', get_gdp_metrics, ''FRED - Bureau of Economic Analysis''),
      (''US Government Debt & Deficit'', get_government_metrics, ''FRED - Treasury Department''),
      (''US 10-Year Yield'', get_10yr_yield, ''FRED - Treasury Department''),
      (''US Inflation Rate'', get_inflation_rate, ''FRED - Bureau of Labor Statistics'')]"
  let ?after = "[(''US Earnings Growth'', get_earnings_growth, ''FRED - Corporate Profits''),
      (''Gold Price'', get_gold_price, ''Yahoo Finance - Gold Futures (GC=F)''),
      (''Bitcoin Price'', get_bitcoin_price, ''Yahoo Finance - BTC-USD''),
      (''WTI Crude Oil Price'', get_wti_crude_price, ''Yahoo Finance - Crude Oil Futures (CL=F)''),
      (''US All Metrics'', get_all_metrics, ''Multiple Sources'')]"
  let ?m = "all_metrics_loop w ?before []"
  have cat: "get_metric_definitions =
      ?before @ (''US Equity Risk Premium'', get_equity_risk_premium, ''NYU Stern - Aswath Damodaran'')
        # ?after"
    by (simp add: get_metric_definitions_def metric_definitions_with_def)
  have run: "all_metrics_loop w get_metric_definitions [] =
      all_metrics_loop w ?after
        (merge_result ?m ''US Equity Risk Premium'' (get_equity_risk_premium w))"
    unfolding cat by (rule all_metrics_loop_entry) simp
  have "map_of (all_metrics_loop w get_metric_definitions []) ''equity_risk_premium'' =
      map_of (all_metrics_loop w ?after
        (merge_result ?m ''US Equity Risk Premium'' (get_equity_risk_premium w)))
        ''equity_risk_premium''"
    by (simp only: run)
  also have "\<dots> =
      map_of (merge_result ?m ''US Equity Risk Premium'' (get_equity_risk_premium w))
        ''equity_risk_premium''"
    using after_premium_keys by (rule map_of_loop)
  also have "\<dots> = Some v"
    unfolding assms(1) using assms(2) by (rule premium_lookup)
  finally show ?thesis .
qed

lemma fallback_premium:
  "get_equity_risk_premium fallback_world =
     Inr (VDict [(''value'', VFloat (Fin 1)), (''earnings_yield'', VFloat (Fin 5)),
                 (''risk_free_rate'', VFloat (Fin 4))])"
  by (simp add: get_equity_risk_premium_def calculate_equity_risk_premium_def download_file_def
      get_pe_ratio_def get_ticker_info_def get_10yr_yield_def safe_get_fred_series_eq
      none_or_empty_def iloc_back_def fl_less_def fallback_world_def failing_world_def)

lemma failing_world_fails: "all_providers_fail failing_world"
  by (simp add: all_providers_fail_def failing_world_def)

lemma fault_entry:
  assumes "func w = Inl e" "metric_name \<noteq> ''US All Metrics''"
  shows "all_metrics_loop w (before @ (metric_name, func, source) # after) [] =
      all_metrics_loop w after
        (dict_set (all_metrics_loop w before []) (normalize_metric_name metric_name) VNone)"
  using assms by (simp add: all_metrics_loop_entry merge_result_def)

section \<open>Flattening\<close>

lemma nested_rows_sub_values:
  "sub_values (nested_rows w m ts src key d) = map (\<lambda>(inner, v). (key @ ''_'' @ inner, v)) d"
  by (induction d) (auto simp: sub_values_def mk_row_def)

lemma sub_values_append: "sub_values (xs @ ys) = sub_values xs @ sub_values ys"
  by (simp add: sub_values_def)

lemma sub_values_mk_row:
  "sub_values (mk_row w m ts src key v # rows) = (key, v) # sub_values rows"
  by (simp add: sub_values_def mk_row_def)

lemma group_rows_sub_values:
  "sub_values (group_rows w m ts src d) = concat (map spec_entry_rows d)"
proof (induction d)
  case Nil
  show ?case by (simp add: sub_values_def)
next
  case (Cons e d)
  obtain k v where e: "e = (k, v)" by (cases e)
  show ?case
    by (cases v)
      (simp_all add: e sub_values_append Cons.IH spec_entry_rows_def nested_rows_sub_values
        sub_values_mk_row)
qed

text \<open>
  C8. A record is scalar when, its \<open>timestamp\<close> and \<open>source\<close> taken out, it has the single
  key \<open>value\<close>: it gives one row, with sub-metric \<open>value\<close>. Every other record gives, entry
  by entry and in order, one row per leaf: the sub-key for a flat entry,
  \<open><outerKey>_<innerKey>\<close> for each inner entry of a nested one. The nested outcome
  \<open>{credit: {baa: 6.5, t10: 4.2}}\<close> gives the two rows \<open>credit_baa\<close> and \<open>credit_t10\<close>.
\<close>

theorem flatten_sub_metric:
  "(length (payload data) = 1 \<and> map_of (payload data) ''value'' = Some v \<longrightarrow>
      sub_values (rows_to_write w m data) = [(''value'', v)])
   \<and> (\<not> (length (payload data) = 1 \<and> dict_has (payload data) ''value'') \<longrightarrow>
      sub_values (rows_to_write w m data) = concat (map spec_entry_rows (payload data)))
   \<and> sub_values (rows_to_write w m
        [(''credit'', VDict [(''baa'', VFloat (Fin (13 / 2))), (''t10'', VFloat (Fin (21 / 5)))])])
      = [(''credit_baa'', VFloat (Fin (13 / 2))), (''credit_t10'', VFloat (Fin (21 / 5)))]"
proof (intro conjI impI)
  assume "length (payload data) = 1 \<and> map_of (payload data) ''value'' = Some v"
  then show "sub_values (rows_to_write w m data) = [(''value'', v)]"
    by (simp add: rows_to_write_def payload_def Let_def sub_values_def mk_row_def)
next
  assume "\<not> (length (payload data) = 1 \<and> dict_has (payload data) ''value'')"
  then show "sub_values (rows_to_write w m data) = concat (map spec_entry_rows (payload data))"
    by (auto simp: rows_to_write_def payload_def Let_def dict_has_def group_rows_sub_values
        split: bool.splits option.splits)
next
  show "sub_values (rows_to_write w m
        [(''credit'', VDict [(''baa'', VFloat (Fin (13 / 2))), (''t10'', VFloat (Fin (21 / 5)))])])
      = [(''credit_baa'', VFloat (Fin (13 / 2))), (''credit_t10'', VFloat (Fin (21 / 5)))]"
    by (simp add: rows_to_write_def dict_del_def Let_def sub_values_def mk_row_def)
qed

theorem flatten_sub_metric_witness:
  "sub_values (rows_to_write failing_world ''US 10-Year Yield''
      [(''value'', VFloat (Fin 4)), (''timestamp'', VStr ''2024-03-01''), (''source'', VStr ''FRED'')])
     = [(''value'', VFloat (Fin 4))]
   \<and> sub_values (rows_to_write failing_world ''US GDP''
      [(''gdp'', VFloat (Fin 28000)), (''nested'', VDict [(''a'', VNone)]),
       (''timestamp'', VStr ''2024-01-01''), (''source'', VStr ''FRED'')])
     = [(''gdp'', VFloat (Fin 28000)), (''nested_a'', VNone)]"
proof -
  let ?d1 = "[(''value'', VFloat (Fin 4)), (''timestamp'', VStr ''2024-03-01''),
        (''source'', VStr ''FRED'')]"
  let ?d2 = "[(''gdp'', VFloat (Fin 28000)), (''nested'', VDict [(''a'', VNone)]),
       (''timestamp'', VStr ''2024-01-01''), (''source'', VStr ''FRED'')]"
  have scalar: "length (payload ?d1) = 1 \<and> map_of (payload ?d1) ''value'' = Some (VFloat (Fin 4))"
    by (simp add: payload_def dict_del_def)
  have pl: "payload ?d2 = [(''gdp'', VFloat (Fin 28000)), (''nested'', VDict [(''a'', VNone)])]"
    by (simp add: payload_def dict_del_def)
  have grp: "\<not> (length (payload ?d2) = 1 \<and> dict_has (payload ?d2) ''value'')"
    by (simp add: pl)
  from flatten_sub_metric [of ?d1 "VFloat (Fin 4)" failing_world "''US 10-Year Yield''"] scalar
  have a: "sub_values (rows_to_write failing_world ''US 10-Year Yield'' ?d1)
     = [(''value'', VFloat (Fin 4))]"
    by blast
  from flatten_sub_metric [of ?d2 VNone failing_world "''US GDP''"] grp
  have "sub_values (rows_to_write failing_world ''US GDP'' ?d2)
     = concat (map spec_entry_rows (payload ?d2))"
    by blast
  then have b: "sub_values (rows_to_write failing_world ''US GDP'' ?d2)
     = [(''gdp'', VFloat (Fin 28000)), (''nested_a'', VNone)]"
    by (simp add: pl spec_entry_rows_def)
  from a b show ?thesis by simp
qed

section \<open>The header is written once\<close>

lemma export_to_csv_written:
  assumes "csv_export_path self = Some p" "p \<noteq> []" "csv_headers_written self"
    "fs p = Some ls" "ls \<noteq> []"
  shows "export_to_csv w self fs m d =
    Inr (self, fs(p \<mapsto> ls @ data_lines (ok_exports [(w, m, d)])))"
proof (cases "open_fault w")
  case None
  with assms show ?thesis
    by (simp add: export_to_csv_def path_set_def try_except_def isfile_def getsize_pos_def
        ok_exports_def data_lines_def Let_def)
next
  case (Some e)
  from assms(4) have "fs(p \<mapsto> ls) = fs" by (rule map_upd_triv)
  with assms Some show ?thesis
    by (simp add: export_to_csv_def path_set_def try_except_def isfile_def getsize_pos_def
        ok_exports_def data_lines_def Let_def)
qed

lemma ok_exports_Cons: "ok_exports (e # es) = ok_exports [e] @ ok_exports es"
  by (simp add: ok_exports_def)

lemma data_lines_append: "data_lines (xs @ ys) = data_lines xs @ data_lines ys"
  by (simp add: data_lines_def)

lemma export_all_written:
  assumes "csv_export_path self = Some p" "p \<noteq> []" "csv_headers_written self"
    "fs p = Some ls" "ls \<noteq> []"
  shows "export_all self fs es = Inr (self, fs(p \<mapsto> ls @ data_lines (ok_exports es)))"
  using assms
proof (induction es arbitrary: fs ls)
  case Nil
  from Nil(4) have "fs(p \<mapsto> ls) = fs" by (rule map_upd_triv)
  then show ?case by (simp add: ok_exports_def data_lines_def)
next
  case (Cons e es)
  obtain w m d where e: "e = (w, m, d)" by (cases e)
  let ?fs1 = "fs(p \<mapsto> ls @ data_lines (ok_exports [(w, m, d)]))"
  have step: "export_to_csv w self fs m d = Inr (self, ?fs1)"
    using Cons.prems by (rule export_to_csv_written)
  have "export_all self ?fs1 es =
      Inr (self, ?fs1(p \<mapsto> (ls @ data_lines (ok_exports [(w, m, d)])) @ data_lines (ok_exports es)))"
    using Cons.prems by (intro Cons.IH) simp_all
  then show ?case
    by (simp add: e step ebind_def ok_exports_Cons [of "(w, m, d)" es] data_lines_append)
      (auto simp: fun_eq_iff)
qed

lemma export_to_csv_fresh:
  assumes "csv_export_path self = Some p" "p \<noteq> []" "fs p = None \<or> fs p = Some []"
    "open_fault w = None"
  shows "export_to_csv w self fs m d =
    Inr (self\<lparr>csv_headers_written := True\<rparr>,
         fs(p \<mapsto> HeaderLine fieldnames # data_lines [(w, m, d)]))"
  using assms
  by (auto simp: export_to_csv_def path_set_def try_except_def isfile_def getsize_pos_def
        data_lines_def Let_def)

lemma export_to_csv_fault:
  assumes "open_fault w = Some e"
  shows "export_to_csv w self fs m d = Inr (self, fs)"
  using assms by (simp add: export_to_csv_def try_except_def Let_def split: option.splits)

lemma export_all_fresh:
  assumes "csv_export_path self = Some p" "p \<noteq> []" "fs p = None \<or> fs p = Some []"
  shows "export_all self fs es =
    (if ok_exports es = [] then Inr (self, fs)
     else Inr (self\<lparr>csv_headers_written := True\<rparr>,
               fs(p \<mapsto> HeaderLine fieldnames # data_lines (ok_exports es))))"
  using assms
proof (induction es)
  case Nil
  show ?case by (simp add: ok_exports_def)
next
  case (Cons e es)
  obtain w m d where e: "e = (w, m, d)" by (cases e)
  show ?case
  proof (cases "open_fault w")
    case (Some x)
    then have "export_to_csv w self fs m d = Inr (self, fs)" by (rule export_to_csv_fault)
    moreover from Some have "ok_exports (e # es) = ok_exports es" by (simp add: e ok_exports_def)
    ultimately show ?thesis using Cons by (simp add: e ebind_def) (auto simp: fun_eq_iff)
  next
    case None
    let ?self1 = "self\<lparr>csv_headers_written := True\<rparr>"
    let ?l1 = "HeaderLine fieldnames # data_lines [(w, m, d)]"
    let ?fs1 = "fs(p \<mapsto> ?l1)"
    have step: "export_to_csv w self fs m d = Inr (?self1, ?fs1)"
      using Cons.prems None by (rule export_to_csv_fresh)
    have rest: "export_all ?self1 ?fs1 es = Inr (?self1, ?fs1(p \<mapsto> ?l1 @ data_lines (ok_exports es)))"
      using Cons.prems by (intro export_all_written) simp_all
    from None have ok: "ok_exports (e # es) = (w, m, d) # ok_exports es"
      by (simp add: e ok_exports_def)
    have upd: "?fs1(p \<mapsto> ?l1 @ data_lines (ok_exports es))
        = fs(p \<mapsto> HeaderLine fieldnames # data_lines (ok_exports (e # es)))"
      by (simp add: ok data_lines_def)
    have "export_all self fs (e # es) = export_all ?self1 ?fs1 es"
      by (simp add: e step ebind_def)
    also have "\<dots> = Inr (?self1, ?fs1(p \<mapsto> ?l1 @ data_lines (ok_exports es)))"
      by (rule rest)
    finally have "export_all self fs (e # es)
        = Inr (?self1, fs(p \<mapsto> HeaderLine fieldnames # data_lines (ok_exports (e # es))))"
      by (simp only: upd)
    moreover have "ok_exports (e # es) \<noteq> []" by (simp add: ok)
    ultimately show ?thesis by simp
  qed
qed

lemma init_ok:
  assumes "p \<noteq> []" "makedirs_fault w0 = None"
  shows "init w0 fs (Some p) =
    Inr \<lparr>csv_export_path = Some p, csv_headers_written = (isfile fs p \<and> getsize_pos fs p)\<rparr>"
  using assms
  by (simp add: init_def path_set_def initialize_csv_export_def try_except_def Let_def)

text \<open>
  C3. A run is the construction of an instance on a sink followed by any sequence of
  exports; the exports that the operating system lets through are those of \<open>ok_exports\<close>.
  On a fresh sink (absent or empty) a run that exports anything leaves exactly one header
  line followed by the data lines of its exports. On a sink that already holds lines a run
  appends its data lines and nothing else. So a second run on the sink the first one wrote
  adds its data lines after the first run's, with no second header. The header line is
  \<open>metric,sub_metric,value,timestamp,source,retrieval_time\<close>.
\<close>

theorem export_header_once:
  assumes "p \<noteq> []" and "makedirs_fault w0 = None" and "makedirs_fault w1 = None"
  shows "((fs p = None \<or> fs p = Some []) \<and> ok_exports es \<noteq> [] \<longrightarrow>
           (\<exists>self'. export_run w0 fs p es =
              Inr (self', fs(p \<mapsto> HeaderLine fieldnames # data_lines (ok_exports es)))))
       \<and> (fs p = Some ls \<and> ls \<noteq> [] \<longrightarrow>
           (\<exists>self'. export_run w0 fs p es = Inr (self', fs(p \<mapsto> ls @ data_lines (ok_exports es)))))
       \<and> ((fs p = None \<or> fs p = Some []) \<and> ok_exports es \<noteq> [] \<longrightarrow>
           (\<exists>self1 fs1 self2. export_run w0 fs p es = Inr (self1, fs1)
              \<and> export_run w1 fs1 p es2 =
                  Inr (self2, fs(p \<mapsto> HeaderLine fieldnames # data_lines (ok_exports es)
                                       @ data_lines (ok_exports es2)))))
       \<and> fieldnames =
           [''metric'', ''sub_metric'', ''value'', ''timestamp'', ''source'', ''retrieval_time'']"
proof -
  have fresh: "\<exists>self'. export_run w0 fs p es =
      Inr (self', fs(p \<mapsto> HeaderLine fieldnames # data_lines (ok_exports es)))"
    if "fs p = None \<or> fs p = Some []" "ok_exports es \<noteq> []" for es
  proof -
    let ?self = "\<lparr>csv_export_path = Some p, csv_headers_written = (isfile fs p \<and> getsize_pos fs p)\<rparr>"
    have "export_all ?self fs es =
        Inr (?self\<lparr>csv_headers_written := True\<rparr>,
             fs(p \<mapsto> HeaderLine fieldnames # data_lines (ok_exports es)))"
      using export_all_fresh [of ?self p fs es] assms(1) that by simp
    then show ?thesis
      by (simp add: export_run_def init_ok [OF assms(1,2)] ebind_def)
  qed
  have old: "\<exists>self'. export_run w fs' p es' = Inr (self', fs'(p \<mapsto> ls' @ data_lines (ok_exports es')))"
    if "fs' p = Some ls'" "ls' \<noteq> []" "makedirs_fault w = None" for w fs' ls' es'
  proof -
    let ?self = "\<lparr>csv_export_path = Some p, csv_headers_written = (isfile fs' p \<and> getsize_pos fs' p)\<rparr>"
    have "csv_headers_written ?self" using that by (simp add: isfile_def getsize_pos_def)
    then have "export_all ?self fs' es' = Inr (?self, fs'(p \<mapsto> ls' @ data_lines (ok_exports es')))"
      using export_all_written [of ?self p fs' ls' es'] assms(1) that by simp
    then show ?thesis
      by (simp add: export_run_def init_ok [OF assms(1) that(3)] ebind_def)
  qed
  have twice: "\<exists>self1 fs1 self2. export_run w0 fs p es = Inr (self1, fs1)
      \<and> export_run w1 fs1 p es2 =
          Inr (self2, fs(p \<mapsto> HeaderLine fieldnames # data_lines (ok_exports es)
                               @ data_lines (ok_exports es2)))"
    if "fs p = None \<or> fs p = Some []" "ok_exports es \<noteq> []"
  proof -
    let ?l1 = "HeaderLine fieldnames # data_lines (ok_exports es)"
    let ?fs1 = "fs(p \<mapsto> ?l1)"
    from fresh [OF that] obtain self1 where r1: "export_run w0 fs p es = Inr (self1, ?fs1)"
      by blast
    have "\<exists>self'. export_run w1 ?fs1 p es2 = Inr (self', ?fs1(p \<mapsto> ?l1 @ data_lines (ok_exports es2)))"
      by (rule old) (simp_all add: assms(3))
    then obtain self2 where "export_run w1 ?fs1 p es2
        = Inr (self2, fs(p \<mapsto> HeaderLine fieldnames # data_lines (ok_exports es)
                               @ data_lines (ok_exports es2)))"
      by auto
    with r1 show ?thesis by blast
  qed
  from fresh old [OF _ _ assms(2)] twice fieldnames_def show ?thesis by blast
qed

lemma ok_sample: "ok_exports [sample_export] = [sample_export]"
  by (simp add: ok_exports_def sample_export_def failing_world_def)

theorem export_header_once_witness:
  "(\<exists>self'. export_run failing_world no_files ''metrics.csv'' [sample_export] =
      Inr (self', no_files(''metrics.csv'' \<mapsto> HeaderLine fieldnames # data_lines [sample_export])))
   \<and> (\<exists>self'. export_run failing_world (no_files(''metrics.csv'' \<mapsto> [HeaderLine fieldnames]))
         ''metrics.csv'' [sample_export] =
      Inr (self', no_files(''metrics.csv'' \<mapsto> [HeaderLine fieldnames] @ data_lines [sample_export])))
   \<and> (\<exists>self1 fs1 self2. export_run failing_world no_files ''metrics.csv'' [sample_export] = Inr (self1, fs1)
         \<and> export_run failing_world fs1 ''metrics.csv'' [sample_export] =
            Inr (self2, no_files(''metrics.csv'' \<mapsto> HeaderLine fieldnames # data_lines [sample_export]
                   @ data_lines [sample_export])))"
proof -
  have p: "''metrics.csv'' \<noteq> []" by simp
  have m: "makedirs_fault failing_world = None" by (simp add: failing_world_def)
  have fresh: "(no_files ''metrics.csv'' = None \<or> no_files ''metrics.csv'' = Some [])
      \<and> ok_exports [sample_export] \<noteq> []"
    by (simp add: no_files_def ok_sample)
  have old: "(no_files(''metrics.csv'' \<mapsto> [HeaderLine fieldnames])) ''metrics.csv'' = Some [HeaderLine fieldnames]
      \<and> [HeaderLine fieldnames] \<noteq> []"
    by simp
  from export_header_once [OF p m m, of no_files "[sample_export]" "[]" "[sample_export]"] fresh
  have a: "\<exists>self'. export_run failing_world no_files ''metrics.csv'' [sample_export] =
      Inr (self', no_files(''metrics.csv'' \<mapsto> HeaderLine fieldnames # data_lines [sample_export]))"
    and c: "\<exists>self1 fs1 self2. export_run failing_world no_files ''metrics.csv'' [sample_export] = Inr (self1, fs1)
         \<and> export_run failing_world fs1 ''metrics.csv'' [sample_export] =
            Inr (self2, no_files(''metrics.csv'' \<mapsto> HeaderLine fieldnames # data_lines [sample_export]
                   @ data_lines [sample_export]))"
    by (simp_all only: ok_sample) blast+
  from export_header_once [OF p m m, of "no_files(''metrics.csv'' \<mapsto> [HeaderLine fieldnames])"
      "[sample_export]" "[HeaderLine fieldnames]" "[]"] old
  have b: "\<exists>self'. export_run failing_world (no_files(''metrics.csv'' \<mapsto> [HeaderLine fieldnames]))
         ''metrics.csv'' [sample_export] =
      Inr (self', no_files(''metrics.csv'' \<mapsto> [HeaderLine fieldnames] @ data_lines [sample_export]))"
    by (simp only: ok_sample fun_upd_upd) blast
  from a b c show ?thesis by blast
qed

section \<open>A failed export\<close>

text \<open>
  C4, as the claim states it, fails: an export that meets a fault when the sink is opened
  returns with the instance unchanged, the sink still enabled, and the same export on the
  same instance, once the fault is gone, writes the header and a row.
\<close>

theorem export_failure_not_disabled:
  "export_to_csv faulty_sink_world
        \<lparr>csv_export_path = Some ''metrics.csv'', csv_headers_written = False\<rparr> no_files
        ''US 10-Year Yield'' [(''value'', VNone)]
      = Inr (\<lparr>csv_export_path = Some ''metrics.csv'', csv_headers_written = False\<rparr>, no_files)
   \<and> export_to_csv failing_world
        \<lparr>csv_export_path = Some ''metrics.csv'', csv_headers_written = False\<rparr> no_files
        ''US 10-Year Yield'' [(''value'', VNone)]
      = Inr (\<lparr>csv_export_path = Some ''metrics.csv'', csv_headers_written = True\<rparr>,
             no_files(''metrics.csv'' \<mapsto>
               [HeaderLine fieldnames,
                DataLine \<lparr>row_metric = ''US 10-Year Yield'', row_sub_metric = ''value'',
                  row_value = VNone, row_timestamp = VStr ''2024-03-01'',
                  row_source = VStr ''Unknown'', row_retrieval_time = ''2024-03-01 09:30:00''\<rparr>]))"
proof (intro conjI)
  show "export_to_csv faulty_sink_world
        \<lparr>csv_export_path = Some ''metrics.csv'', csv_headers_written = False\<rparr> no_files
        ''US 10-Year Yield'' [(''value'', VNone)]
      = Inr (\<lparr>csv_export_path = Some ''metrics.csv'', csv_headers_written = False\<rparr>, no_files)"
    by (simp add: export_to_csv_def try_except_def Let_def faulty_sink_world_def path_set_def)
next
  show "export_to_csv failing_world
        \<lparr>csv_export_path = Some ''metrics.csv'', csv_headers_written = False\<rparr> no_files
        ''US 10-Year Yield'' [(''value'', VNone)]
      = Inr (\<lparr>csv_export_path = Some ''metrics.csv'', csv_headers_written = True\<rparr>,
             no_files(''metrics.csv'' \<mapsto>
               [HeaderLine fieldnames,
                DataLine \<lparr>row_metric = ''US 10-Year Yield'', row_sub_metric = ''value'',
                  row_value = VNone, row_timestamp = VStr ''2024-03-01'',
                  row_source = VStr ''Unknown'', row_retrieval_time = ''2024-03-01 09:30:00''\<rparr>]))"
    by (simp add: export_to_csv_def try_except_def Let_def failing_world_def path_set_def
        isfile_def getsize_pos_def no_files_def rows_to_write_def dict_del_def mk_row_def)
qed

lemma init_fault:
  assumes "p \<noteq> []" "makedirs_fault w = Some e"
  shows "init w fs (Some p) = Inr \<lparr>csv_export_path = None, csv_headers_written = False\<rparr>"
  using assms
  by (simp add: init_def path_set_def initialize_csv_export_def try_except_def Let_def)

text \<open>
  C4, amended. An export call never raises and leaves the sink handle as it was; when the
  sink cannot be opened the call changes nothing, so a later call tries again. The handle
  is disabled only by a failure while the instance is constructed
  (\<open>initialize_csv_export\<close>), and then every export call is a no-op.
\<close>

theorem export_failure_caught:
  "(\<exists>self' fs'. export_to_csv w self fs m d = Inr (self', fs')
      \<and> csv_export_path self' = csv_export_path self)
   \<and> (open_fault w \<noteq> None \<longrightarrow> export_to_csv w self fs m d = Inr (self, fs))
   \<and> (p \<noteq> [] \<and> makedirs_fault w0 \<noteq> None \<longrightarrow>
        (\<exists>self0. init w0 fs (Some p) = Inr self0 \<and> csv_export_path self0 = None
           \<and> export_to_csv w self0 fs m d = Inr (self0, fs)))"
proof (intro conjI impI)
  show "\<exists>self' fs'. export_to_csv w self fs m d = Inr (self', fs')
      \<and> csv_export_path self' = csv_export_path self"
    by (cases "open_fault w")
      (simp_all add: export_to_csv_def try_except_def Let_def split: option.splits)
next
  assume "open_fault w \<noteq> None"
  then show "export_to_csv w self fs m d = Inr (self, fs)"
    by (auto simp: export_to_csv_def try_except_def Let_def split: option.splits)
next
  assume "p \<noteq> [] \<and> makedirs_fault w0 \<noteq> None"
  then obtain e where "p \<noteq> []" "makedirs_fault w0 = Some e" by auto
  then have "init w0 fs (Some p) = Inr \<lparr>csv_export_path = None, csv_headers_written = False\<rparr>"
    by (rule init_fault)
  then show "\<exists>self0. init w0 fs (Some p) = Inr self0 \<and> csv_export_path self0 = None
           \<and> export_to_csv w self0 fs m d = Inr (self0, fs)"
    by (simp add: export_to_csv_def path_set_def)
qed

theorem export_failure_caught_witness:
  "export_to_csv faulty_sink_world
      \<lparr>csv_export_path = Some ''metrics.csv'', csv_headers_written = False\<rparr> no_files
      ''US 10-Year Yield'' [(''value'', VNone)]
    = Inr (\<lparr>csv_export_path = Some ''metrics.csv'', csv_headers_written = False\<rparr>, no_files)
   \<and> (\<exists>self0. init (failing_world\<lparr>makedirs_fault := Some OSError\<rparr>) no_files (Some ''metrics.csv'')
          = Inr self0 \<and> csv_export_path self0 = None
        \<and> export_to_csv faulty_sink_world self0 no_files ''US 10-Year Yield'' [(''value'', VNone)]
            = Inr (self0, no_files))"
proof -
  have h1: "open_fault faulty_sink_world \<noteq> None"
    by (simp add: faulty_sink_world_def)
  have h2: "''metrics.csv'' \<noteq> [] \<and> makedirs_fault (failing_world\<lparr>makedirs_fault := Some OSError\<rparr>) \<noteq> None"
    by simp
  from export_failure_caught [of faulty_sink_world
      "\<lparr>csv_export_path = Some ''metrics.csv'', csv_headers_written = False\<rparr>" no_files
      "''US 10-Year Yield''" "[(''value'', VNone)]" "''metrics.csv''"
      "failing_world\<lparr>makedirs_fault := Some OSError\<rparr>"] h1
  have a: "export_to_csv faulty_sink_world
      \<lparr>csv_export_path = Some ''metrics.csv'', csv_headers_written = False\<rparr> no_files
      ''US 10-Year Yield'' [(''value'', VNone)]
    = Inr (\<lparr>csv_export_path = Some ''metrics.csv'', csv_headers_written = False\<rparr>, no_files)"
    by blast
  from export_failure_caught [of faulty_sink_world
      "\<lparr>csv_export_path = Some ''metrics.csv'', csv_headers_written = False\<rparr>" no_files
      "''US 10-Year Yield''" "[(''value'', VNone)]" "''metrics.csv''"
      "failing_world\<lparr>makedirs_fault := Some OSError\<rparr>"] h2
  have b: "\<exists>self0. init (failing_world\<lparr>makedirs_fault := Some OSError\<rparr>) no_files (Some ''metrics.csv'')
          = Inr self0 \<and> csv_export_path self0 = None
        \<and> export_to_csv faulty_sink_world self0 no_files ''US 10-Year Yield'' [(''value'', VNone)]
            = Inr (self0, no_files)"
    by blast
  from a b show ?thesis by blast
qed

section \<open>Year-over-year change\<close>

text \<open>
  C5. With a CPI series of exactly 12 observations \<open>get_inflation_rate\<close> returns \<open>None\<close>. With
  13 observations, the first 100 and the last 110, it returns 10 (percent), whatever the
  observations between. With 13 observations or more the result is
  \<open>((last / thirteenth-from-last) - 1) * 100\<close>. (Numbers are exact here: in binary floating
  point the middle result is 10 up to rounding.)
\<close>

theorem inflation_rate_year_over_year:
  "(fred_get_series w ''CPIAUCSL'' = Inr cpi \<and> length cpi = 12 \<longrightarrow>
      get_inflation_rate w = Inr VNone)
   \<and> (fred_get_series w ''CPIAUCSL'' = Inr cpi \<and> length cpi = 13
        \<and> snd (hd cpi) = Fin 100 \<and> snd (last cpi) = Fin 110 \<longrightarrow>
      get_inflation_rate w = Inr (VFloat (Fin 10)))
   \<and> (fred_get_series w ''CPIAUCSL'' = Inr cpi \<and> 13 \<le> length cpi \<longrightarrow>
      get_inflation_rate w =
        Inr (VFloat (fl_mul (fl_sub (fl_div (snd (last cpi)) (snd (cpi ! (length cpi - 13))))
                               (Fin 1)) (Fin 100))))"
proof (intro conjI impI)
  assume "fred_get_series w ''CPIAUCSL'' = Inr cpi \<and> length cpi = 12"
  then show "get_inflation_rate w = Inr VNone"
    by (simp add: get_inflation_rate_def safe_get_fred_series_eq none_or_empty_def)
next
  assume a: "fred_get_series w ''CPIAUCSL'' = Inr cpi \<and> 13 \<le> length cpi"
  then have ne: "cpi \<noteq> []" by auto
  have l: "iloc_back (map snd cpi) 1 = Inr (snd (last cpi))"
    using ne by (rule iloc_back_last)
  have y: "iloc_back (map snd cpi) 13 = Inr (snd (cpi ! (length cpi - 13)))"
    using a ne by (simp add: iloc_back_def nth_map)
  from a ne show "get_inflation_rate w =
        Inr (VFloat (fl_mul (fl_sub (fl_div (snd (last cpi)) (snd (cpi ! (length cpi - 13))))
                               (Fin 1)) (Fin 100)))"
    by (simp add: get_inflation_rate_def safe_get_fred_series_eq none_or_empty_def
        l [unfolded One_nat_def] y)
next
  assume a: "fred_get_series w ''CPIAUCSL'' = Inr cpi \<and> length cpi = 13
        \<and> snd (hd cpi) = Fin 100 \<and> snd (last cpi) = Fin 110"
  then have ne: "cpi \<noteq> []" by auto
  have l: "iloc_back (map snd cpi) 1 = Inr (Fin 110)"
    using iloc_back_last [OF ne, of snd] a by simp
  have y: "iloc_back (map snd cpi) 13 = Inr (Fin 100)"
    using a ne by (simp add: iloc_back_def hd_conv_nth)
  from a ne show "get_inflation_rate w = Inr (VFloat (Fin 10))"
    by (simp add: get_inflation_rate_def safe_get_fred_series_eq none_or_empty_def
        l [unfolded One_nat_def] y)
qed

theorem inflation_rate_year_over_year_witness:
  "get_inflation_rate (fred_world (\<lambda>series_id. Inr (tl (monthly (Fin 100) (Fin 110))))) = Inr VNone
   \<and> get_inflation_rate (fred_world (\<lambda>series_id. Inr (monthly (Fin 100) (Fin 110))))
       = Inr (VFloat (Fin 10))
   \<and> get_inflation_rate (fred_world (\<lambda>series_id. Inr (monthly (Fin 200) (Fin 210))))
       = Inr (VFloat (Fin 5))"
proof -
  let ?w12 = "fred_world (\<lambda>series_id. Inr (tl (monthly (Fin 100) (Fin 110))))"
  let ?w13 = "fred_world (\<lambda>series_id. Inr (monthly (Fin 100) (Fin 110)))"
  let ?w = "fred_world (\<lambda>series_id. Inr (monthly (Fin 200) (Fin 210)))"
  have h12: "fred_get_series ?w12 ''CPIAUCSL'' = Inr (tl (monthly (Fin 100) (Fin 110)))
      \<and> length (tl (monthly (Fin 100) (Fin 110))) = 12"
    by (simp add: fred_world_def monthly_def)
  have h13: "fred_get_series ?w13 ''CPIAUCSL'' = Inr (monthly (Fin 100) (Fin 110))
      \<and> length (monthly (Fin 100) (Fin 110)) = 13
      \<and> snd (hd (monthly (Fin 100) (Fin 110))) = Fin 100
      \<and> snd (last (monthly (Fin 100) (Fin 110))) = Fin 110"
    by (simp add: fred_world_def monthly_def)
  have h: "fred_get_series ?w ''CPIAUCSL'' = Inr (monthly (Fin 200) (Fin 210))
      \<and> 13 \<le> length (monthly (Fin 200) (Fin 210))"
    by (simp add: fred_world_def monthly_def)
  from inflation_rate_year_over_year [of ?w12 "tl (monthly (Fin 100) (Fin 110))"] h12
  have a: "get_inflation_rate ?w12 = Inr VNone" by blast
  from inflation_rate_year_over_year [of ?w13 "monthly (Fin 100) (Fin 110)"] h13
  have b: "get_inflation_rate ?w13 = Inr (VFloat (Fin 10))" by blast
  from inflation_rate_year_over_year [of ?w "monthly (Fin 200) (Fin 210)"] h
  have "get_inflation_rate ?w =
        Inr (VFloat (fl_mul (fl_sub (fl_div (snd (last (monthly (Fin 200) (Fin 210))))
            (snd (monthly (Fin 200) (Fin 210) ! (length (monthly (Fin 200) (Fin 210)) - 13))))
                               (Fin 1)) (Fin 100)))"
    by blast
  then have c: "get_inflation_rate ?w = Inr (VFloat (Fin 5))"
    by (simp add: monthly_def)
  from a b c show ?thesis by blast
qed

section \<open>The denominator of the inflation rate\<close>

text \<open>
  C6, at the inputs where the code departs from it. The thirteenth observation from the end
  of the CPI series is the denominator. When it is -1 (the last being 1) \<open>get_inflation_rate\<close>
  divides and returns -200; when it is 0 (the last being 110) it divides and returns an
  infinity. On a series of profits with the same prior values \<open>get_earnings_growth\<close> returns
  the null payload, as its guard \<open>year_ago_value <= 0\<close> says.
\<close>

theorem inflation_rate_unguarded:
  "get_inflation_rate (fred_world (\<lambda>series_id. Inr (monthly (Fin (- 1)) (Fin 1))))
       = Inr (VFloat (Fin (- 200)))
   \<and> get_inflation_rate (fred_world (\<lambda>series_id. Inr (monthly (Fin 0) (Fin 110))))
       = Inr (VFloat PInf)
   \<and> get_earnings_growth (fred_world (\<lambda>series_id. Inr (quarterly (Fin (- 1)) (Fin 1))))
       = Inr (VDict [(''growth_rate'', VNone)])
   \<and> get_earnings_growth (fred_world (\<lambda>series_id. Inr (quarterly (Fin 0) (Fin 110))))
       = Inr (VDict [(''growth_rate'', VNone)])"
  by (simp add: get_inflation_rate_def get_earnings_growth_def safe_get_fred_series_eq
      none_or_empty_def fred_world_def monthly_def quarterly_def iloc_back_def)

section \<open>Credit spreads\<close>

text \<open>
  C7. When the last value of the BAA series is 6.50 and the last value of the 10-year series
  is 4.20, \<open>get_credit_spreads\<close> returns \<open>{baa_yield: 6.50, treasury_10y: 4.20, baa_spread: 2.30}\<close>.
  When either series is absent (the provider raises) or empty it returns the group with all
  three values \<open>None\<close>.
\<close>

theorem credit_spreads_composite:
  "(fred_get_series w ''BAA'' = Inr baa \<and> fred_get_series w ''DGS10'' = Inr t10
      \<and> baa \<noteq> [] \<and> t10 \<noteq> [] \<and> snd (last baa) = Fin (13 / 2) \<and> snd (last t10) = Fin (21 / 5) \<longrightarrow>
      get_credit_spreads w =
        Inr (VDict [(''baa_yield'', VFloat (Fin (13 / 2))), (''treasury_10y'', VFloat (Fin (21 / 5))),
                    (''baa_spread'', VFloat (Fin (23 / 10)))]))
   \<and> (series_unavailable w ''BAA'' \<or> series_unavailable w ''DGS10'' \<longrightarrow>
      get_credit_spreads w =
        Inr (VDict [(''baa_yield'', VNone), (''treasury_10y'', VNone), (''baa_spread'', VNone)]))"
proof (intro conjI impI)
  assume a: "fred_get_series w ''BAA'' = Inr baa \<and> fred_get_series w ''DGS10'' = Inr t10
      \<and> baa \<noteq> [] \<and> t10 \<noteq> [] \<and> snd (last baa) = Fin (13 / 2) \<and> snd (last t10) = Fin (21 / 5)"
  then have b: "iloc_back (map snd baa) (Suc 0) = Inr (Fin (13 / 2))"
    using iloc_back_last [of baa snd] by simp
  from a have t: "iloc_back (map snd t10) (Suc 0) = Inr (Fin (21 / 5))"
    using iloc_back_last [of t10 snd] by simp
  from a show "get_credit_spreads w =
        Inr (VDict [(''baa_yield'', VFloat (Fin (13 / 2))), (''treasury_10y'', VFloat (Fin (21 / 5))),
                    (''baa_spread'', VFloat (Fin (23 / 10)))])"
    by (simp add: get_credit_spreads_def safe_get_fred_series_eq none_or_empty_def b t)
next
  assume "series_unavailable w ''BAA'' \<or> series_unavailable w ''DGS10''"
  then show "get_credit_spreads w =
        Inr (VDict [(''baa_yield'', VNone), (''treasury_10y'', VNone), (''baa_spread'', VNone)])"
    by (auto simp: get_credit_spreads_def safe_get_fred_series_eq none_or_empty_def
        series_unavailable_def split: sum.splits)
qed

theorem credit_spreads_composite_witness:
  "get_credit_spreads
      (fred_world (\<lambda>series_id.
         if series_id = ''BAA'' then Inr [(''2024-01-01'', Fin 6), (''2024-02-01'', Fin (13 / 2))]
         else Inr [(''2024-02-29'', Fin (21 / 5))]))
     = Inr (VDict [(''baa_yield'', VFloat (Fin (13 / 2))), (''treasury_10y'', VFloat (Fin (21 / 5))),
                   (''baa_spread'', VFloat (Fin (23 / 10)))])
   \<and> get_credit_spreads
      (fred_world (\<lambda>series_id.
         if series_id = ''BAA'' then Inr [(''2024-02-01'', Fin (13 / 2))] else Inr []))
     = Inr (VDict [(''baa_yield'', VNone), (''treasury_10y'', VNone), (''baa_spread'', VNone)])"
proof -
  let ?w1 = "fred_world (\<lambda>series_id.
         if series_id = ''BAA'' then Inr [(''2024-01-01'', Fin 6), (''2024-02-01'', Fin (13 / 2))]
         else Inr [(''2024-02-29'', Fin (21 / 5))])"
  let ?w2 = "fred_world (\<lambda>series_id.
         if series_id = ''BAA'' then Inr [(''2024-02-01'', Fin (13 / 2))] else Inr [])"
  let ?baa = "[(''2024-01-01'', Fin 6), (''2024-02-01'', Fin (13 / 2))]"
  let ?t10 = "[(''2024-02-29'', Fin (21 / 5))]"
  have h1: "fred_get_series ?w1 ''BAA'' = Inr ?baa \<and> fred_get_series ?w1 ''DGS10'' = Inr ?t10
      \<and> ?baa \<noteq> [] \<and> ?t10 \<noteq> [] \<and> snd (last ?baa) = Fin (13 / 2) \<and> snd (last ?t10) = Fin (21 / 5)"
    by (simp add: fred_world_def)
  have h2: "series_unavailable ?w2 ''BAA'' \<or> series_unavailable ?w2 ''DGS10''"
    by (simp add: fred_world_def series_unavailable_def)
  from credit_spreads_composite [of ?w1 ?baa ?t10] h1
  have a: "get_credit_spreads ?w1
     = Inr (VDict [(''baa_yield'', VFloat (Fin (13 / 2))), (''treasury_10y'', VFloat (Fin (21 / 5))),
                   (''baa_spread'', VFloat (Fin (23 / 10)))])"
    by blast
  from credit_spreads_composite [of ?w2] h2
  have b: "get_credit_spreads ?w2
     = Inr (VDict [(''baa_yield'', VNone), (''treasury_10y'', VNone), (''baa_spread'', VNone)])"
    by blast
  from a b show ?thesis by blast
qed

section \<open>One indicator by name\<close>

text \<open>
  C1. Whatever the providers do, \<open>get_metric_by_name\<close> returns for every name registered in
  the catalog; for every other name it raises \<open>KeyError\<close> (the UnknownIndicator fault).
\<close>

theorem get_metric_by_name_total:
  "(metric_name \<in> set catalog_names \<longrightarrow> returns (get_metric_by_name w self fs metric_name))
   \<and> (metric_name \<notin> set catalog_names \<longrightarrow>
        get_metric_by_name w self fs metric_name = Inl (KeyError metric_name))"
proof (intro conjI impI)
  assume "metric_name \<notin> set catalog_names"
  then have "lookup_definition get_metric_definitions metric_name = Inl (KeyError metric_name)"
    unfolding catalog_names_def by (rule lookup_definition_missing)
  then show "get_metric_by_name w self fs metric_name = Inl (KeyError metric_name)"
    by (simp add: get_metric_by_name_def)
next
  assume "metric_name \<in> set catalog_names"
  then obtain func source where
    found: "lookup_definition get_metric_definitions metric_name = Inr (func, source)"
    and entry: "(metric_name, func, source) \<in> set get_metric_definitions"
    unfolding catalog_names_def using lookup_definition_found by blast
  from entry obtain raw where raw: "func w = Inr raw"
    using catalog_returns [of metric_name func source w] by (auto simp: returns_iff)
  obtain ts where ts: "get_timestamp_for_metric w metric_name = Inr ts"
    using get_timestamp_for_metric_returns [of w metric_name] by (auto simp: returns_iff)
  obtain result where result:
    "(case raw of
        VDict d \<Rightarrow>
          ebind (get_timestamp_for_metric w metric_name) (\<lambda>ts.
            Inr (dict_set (dict_set d ''timestamp'' (VStr ts)) ''source'' (VStr source)))
      | _ \<Rightarrow> Inr [(''value'', raw), (''timestamp'', VStr (today w)), (''source'', VStr source)])
     = Inr result"
    by (cases raw) (simp_all add: ts)
  obtain self' fs' where "export_to_csv w self fs metric_name result = Inr (self', fs')"
    using export_to_csv_returns [of w self fs metric_name result] by (auto simp: returns_iff)
  then show "returns (get_metric_by_name w self fs metric_name)"
    by (simp add: get_metric_by_name_def found raw result)
qed

theorem get_metric_by_name_total_witness:
  "returns (get_metric_by_name failing_world
      \<lparr>csv_export_path = Some ''metrics.csv'', csv_headers_written = False\<rparr> no_files
      ''US Credit Spreads'')
   \<and> get_metric_by_name failing_world
      \<lparr>csv_export_path = Some ''metrics.csv'', csv_headers_written = False\<rparr> no_files
      ''US Unemployment'' = Inl (KeyError ''US Unemployment'')"
proof -
  have a: "''US Credit Spreads'' \<in> set catalog_names"
    by (simp add: catalog_names_def get_metric_definitions_def metric_definitions_with_def)
  have b: "''US Unemployment'' \<notin> set catalog_names"
    by (simp add: catalog_names_def get_metric_definitions_def metric_definitions_with_def)
  from get_metric_by_name_total [of "''US Credit Spreads''" failing_world
      "\<lparr>csv_export_path = Some ''metrics.csv'', csv_headers_written = False\<rparr>" no_files] a
  have "returns (get_metric_by_name failing_world
      \<lparr>csv_export_path = Some ''metrics.csv'', csv_headers_written = False\<rparr> no_files
      ''US Credit Spreads'')"
    by blast
  moreover from get_metric_by_name_total [of "''US Unemployment''" failing_world
      "\<lparr>csv_export_path = Some ''metrics.csv'', csv_headers_written = False\<rparr>" no_files] b
  have "get_metric_by_name failing_world
      \<lparr>csv_export_path = Some ''metrics.csv'', csv_headers_written = False\<rparr> no_files
      ''US Unemployment'' = Inl (KeyError ''US Unemployment'')"
    by blast
  ultimately show ?thesis by blast
qed

section \<open>Timestamps\<close>

text \<open>
  C9, as the claim states it, fails. When the series of the GDP cannot be fetched the result
  is the literal \<open>Date not available\<close>, with a capital D, not \<open>date not available\<close>. And a
  failure inside the strategy of the CAPE ratio (the spreadsheet cannot be read) is answered
  by the last date of the fallback series, not by the sentinel.
\<close>

theorem timestamp_sentinel_spelling:
  "timestamp_strategy failing_world ''US GDP'' = Inl (ProviderFault ''series'')
   \<and> get_timestamp_for_metric failing_world ''US GDP'' = Inr ''Date not available''
   \<and> get_timestamp_for_metric failing_world ''US GDP'' \<noteq> Inr ''date not available''
   \<and> shiller_last_date (fred_world (\<lambda>series_id. Inr [(''2024-01-01'', Fin 310)]))
       = Inl (ProviderFault ''spreadsheet'')
   \<and> get_timestamp_for_metric (fred_world (\<lambda>series_id. Inr [(''2024-01-01'', Fin 310)]))
       ''US CAPE Ratio'' = Inr ''2024-01-01''"
  by (simp add: timestamp_strategy_def get_timestamp_for_metric_def series_last_date_def
      shiller_last_date_def failing_world_def fred_world_def iloc_back_def)

text \<open>
  C9, amended. \<open>get_timestamp_for_metric\<close> never raises and always returns a string: the
  string of the indicator's strategy when the strategy returns, and exactly the literal
  \<open>Date not available\<close> when the strategy raises (for the CAPE ratio: when the fallback series
  fails after the spreadsheet did).
\<close>

theorem timestamp_never_raises:
  "(\<exists>s. get_timestamp_for_metric w metric_name = Inr s)
   \<and> (\<not> returns (timestamp_strategy w metric_name) \<longrightarrow>
        get_timestamp_for_metric w metric_name = Inr ''Date not available'')
   \<and> (timestamp_strategy w metric_name = Inr s \<longrightarrow>
        get_timestamp_for_metric w metric_name = Inr s)"
  by (cases "timestamp_strategy w metric_name") (simp_all add: get_timestamp_for_metric_def)

theorem timestamp_never_raises_witness:
  "get_timestamp_for_metric failing_world ''US Inflation Rate'' = Inr ''Date not available''
   \<and> get_timestamp_for_metric failing_world ''Gold Price'' = Inr ''2024-03-01''"
proof -
  have a: "\<not> returns (timestamp_strategy failing_world ''US Inflation Rate'')"
    by (simp add: timestamp_strategy_def series_last_date_def failing_world_def)
  have b: "timestamp_strategy failing_world ''Gold Price'' = Inr ''2024-03-01''"
    by (simp add: timestamp_strategy_def failing_world_def)
  from timestamp_never_raises [of failing_world "''US Inflation Rate''"] a
  have "get_timestamp_for_metric failing_world ''US Inflation Rate'' = Inr ''Date not available''"
    by blast
  moreover from timestamp_never_raises [of failing_world "''Gold Price''" "''2024-03-01''"] b
  have "get_timestamp_for_metric failing_world ''Gold Price'' = Inr ''2024-03-01''"
    by blast
  ultimately show ?thesis by blast
qed

section \<open>All indicators at once\<close>

text \<open>
  C2. \<open>get_all_metrics\<close> always returns a mapping, and the mapping holds the keys of every
  catalog indicator but \<open>US All Metrics\<close>: the normalized name of an indicator whose resolver
  gave a number, \<open>None\<close> or a group with a \<open>value\<close> entry, the sub-keys of a group otherwise
  (ten normalized names are there in every world; credit spreads, government and earnings
  growth are there under their name or under their sub-keys). When every provider call
  fails, the mapping is the eighteen keys listed, each with \<open>None\<close>. For any catalog, a
  resolver that raises gives the entry \<open>None\<close> under the normalized name of its indicator, the
  indicators before and after it being merged as usual.
\<close>

theorem get_all_metrics_covers:
  "(\<exists>metrics. get_all_metrics w = Inr (VDict metrics)
      \<and> (\<forall>(metric_name, func, source) \<in> set get_metric_definitions.
            metric_name \<noteq> ''US All Metrics'' \<longrightarrow>
            set (contributed_keys metric_name (func w)) \<subseteq> set (dict_keys metrics))
      \<and> set [''pe_ratio'', ''cape_ratio'', ''market_to_gdp'', ''gdp'', ''10yr_yield'',
              ''inflation_rate'', ''equity_risk_premium'', ''gold_price'', ''bitcoin_price'',
              ''wti_crude_price''] \<subseteq> set (dict_keys metrics)
      \<and> (''credit_spreads'' \<in> set (dict_keys metrics)
           \<or> set [''baa_yield'', ''treasury_10y'', ''baa_spread''] \<subseteq> set (dict_keys metrics))
      \<and> (''government'' \<in> set (dict_keys metrics)
           \<or> set [''govt_debt'', ''govt_deficit'', ''debt_to_gdp''] \<subseteq> set (dict_keys metrics))
      \<and> (''earnings_growth'' \<in> set (dict_keys metrics)
           \<or> ''growth_rate'' \<in> set (dict_keys metrics)))
   \<and> (all_providers_fail w \<longrightarrow>
        get_all_metrics w =
          Inr (VDict [(''pe_ratio'', VNone), (''cape_ratio'', VNone), (''baa_yield'', VNone),
            (''treasury_10y'', VNone), (''baa_spread'', VNone), (''market_to_gdp'', VNone),
            (''gdp'', VNone), (''gdp_growth'', VNone), (''govt_debt'', VNone),
            (''govt_deficit'', VNone), (''debt_to_gdp'', VNone), (''10yr_yield'', VNone),
            (''inflation_rate'', VNone), (''equity_risk_premium'', VNone),
            (''earnings_growth'', VNone), (''gold_price'', VNone), (''bitcoin_price'', VNone),
            (''wti_crude_price'', VNone)]))
   \<and> (func w = Inl e \<and> name \<noteq> ''US All Metrics'' \<longrightarrow>
        get_all_metrics_from (before @ (name, func, source) # after) w =
          Inr (VDict (all_metrics_loop w after
            (dict_set (all_metrics_loop w before []) (normalize_metric_name name) VNone)))
        \<and> normalize_metric_name name
            \<in> set (dict_keys (all_metrics_loop w (before @ (name, func, source) # after) []))
        \<and> (normalize_metric_name name \<notin> loop_keys w after \<longrightarrow>
             map_of (all_metrics_loop w (before @ (name, func, source) # after) [])
               (normalize_metric_name name) = Some VNone))"
proof (intro conjI impI)
  let ?metrics = "all_metrics_loop w get_metric_definitions []"
  have res: "get_all_metrics w = Inr (VDict ?metrics)"
    and keys: "set (dict_keys ?metrics) = loop_keys w get_metric_definitions"
    using get_all_metrics_keys [of w] by blast+
  have each: "\<forall>(metric_name, func, source) \<in> set get_metric_definitions.
      metric_name \<noteq> ''US All Metrics'' \<longrightarrow>
      set (contributed_keys metric_name (func w)) \<subseteq> set (dict_keys ?metrics)"
    unfolding keys using contributed_in_loop_keys by blast
  have expl: "loop_keys w get_metric_definitions =
     set (contributed_keys ''US P/E Ratio'' (get_pe_ratio w))
     \<union> set (contributed_keys ''US CAPE Ratio'' (get_cape_ratio w))
     \<union> set (contributed_keys ''US Credit Spreads'' (get_credit_spreads w))
     \<union> set (contributed_keys ''US Stock Market / GDP'' (get_market_to_gdp w))
     \<union> set (contributed_keys ''US GDP'' (get_gdp_metrics w))
     \<union> set (contributed_keys ''US Government Debt & Deficit'' (get_government_metrics w))
     \<union> set (contributed_keys ''US 10-Year Yield'' (get_10yr_yield w))
     \<union> set (contributed_keys ''US Inflation Rate'' (get_inflation_rate w))
     \<union> set (contributed_keys ''US Equity Risk Premium'' (get_equity_risk_premium w))
     \<union> set (contributed_keys ''US Earnings Growth'' (get_earnings_growth w))
     \<union> set (contributed_keys ''Gold Price'' (get_gold_price w))
     \<union> set (contributed_keys ''Bitcoin Price'' (get_bitcoin_price w))
     \<union> set (contributed_keys ''WTI Crude Oil Price'' (get_wti_crude_price w))"
    unfolding get_metric_definitions_def by (rule catalog_loop_keys)
  have always: "set [''pe_ratio'', ''cape_ratio'', ''market_to_gdp'', ''gdp'', ''10yr_yield'',
              ''inflation_rate'', ''equity_risk_premium'', ''gold_price'', ''bitcoin_price'',
              ''wti_crude_price''] \<subseteq> set (dict_keys ?metrics)"
    unfolding keys expl scalar_keys using gdp_keys [of w] by auto
  have credit: "''credit_spreads'' \<in> set (dict_keys ?metrics)
           \<or> set [''baa_yield'', ''treasury_10y'', ''baa_spread''] \<subseteq> set (dict_keys ?metrics)"
    unfolding keys expl scalar_keys using credit_keys [of w] by auto
  have government: "''government'' \<in> set (dict_keys ?metrics)
           \<or> set [''govt_debt'', ''govt_deficit'', ''debt_to_gdp''] \<subseteq> set (dict_keys ?metrics)"
    unfolding keys expl scalar_keys using government_keys [of w] by auto
  have earnings: "''earnings_growth'' \<in> set (dict_keys ?metrics)
           \<or> ''growth_rate'' \<in> set (dict_keys ?metrics)"
    unfolding keys expl scalar_keys using earnings_keys [of w] by auto
  from res each always credit government earnings
  show "\<exists>metrics. get_all_metrics w = Inr (VDict metrics)
      \<and> (\<forall>(metric_name, func, source) \<in> set get_metric_definitions.
            metric_name \<noteq> ''US All Metrics'' \<longrightarrow>
            set (contributed_keys metric_name (func w)) \<subseteq> set (dict_keys metrics))
      \<and> set [''pe_ratio'', ''cape_ratio'', ''market_to_gdp'', ''gdp'', ''10yr_yield'',
              ''inflation_rate'', ''equity_risk_premium'', ''gold_price'', ''bitcoin_price'',
              ''wti_crude_price''] \<subseteq> set (dict_keys metrics)
      \<and> (''credit_spreads'' \<in> set (dict_keys metrics)
           \<or> set [''baa_yield'', ''treasury_10y'', ''baa_spread''] \<subseteq> set (dict_keys metrics))
      \<and> (''government'' \<in> set (dict_keys metrics)
           \<or> set [''govt_debt'', ''govt_deficit'', ''debt_to_gdp''] \<subseteq> set (dict_keys metrics))
      \<and> (''earnings_growth'' \<in> set (dict_keys metrics)
           \<or> ''growth_rate'' \<in> set (dict_keys metrics))"
    by (intro exI [of _ ?metrics] conjI)
next
  assume "all_providers_fail w"
  then show "get_all_metrics w =
          Inr (VDict [(''pe_ratio'', VNone), (''cape_ratio'', VNone), (''baa_yield'', VNone),
            (''treasury_10y'', VNone), (''baa_spread'', VNone), (''market_to_gdp'', VNone),
            (''gdp'', VNone), (''gdp_growth'', VNone), (''govt_debt'', VNone),
            (''govt_deficit'', VNone), (''debt_to_gdp'', VNone), (''10yr_yield'', VNone),
            (''inflation_rate'', VNone), (''equity_risk_premium'', VNone),
            (''earnings_growth'', VNone), (''gold_price'', VNone), (''bitcoin_price'', VNone),
            (''wti_crude_price'', VNone)])"
    by (rule all_fail_metrics)
next
  assume a: "func w = Inl e \<and> name \<noteq> ''US All Metrics''"
  then have run: "all_metrics_loop w (before @ (name, func, source) # after) [] =
      all_metrics_loop w after
        (dict_set (all_metrics_loop w before []) (normalize_metric_name name) VNone)"
    by (intro fault_entry) simp_all
  then show "get_all_metrics_from (before @ (name, func, source) # after) w =
          Inr (VDict (all_metrics_loop w after
            (dict_set (all_metrics_loop w before []) (normalize_metric_name name) VNone)))"
    by (simp only: get_all_metrics_from_def)
  show "normalize_metric_name name
            \<in> set (dict_keys (all_metrics_loop w (before @ (name, func, source) # after) []))"
    unfolding run by (simp add: dict_keys_loop dict_keys_dict_set)
  show "map_of (all_metrics_loop w (before @ (name, func, source) # after) [])
               (normalize_metric_name name) = Some VNone"
    if "normalize_metric_name name \<notin> loop_keys w after"
    unfolding run using that by (simp add: map_of_loop map_of_dict_set)
qed

theorem get_all_metrics_covers_witness:
  "get_all_metrics failing_world =
      Inr (VDict [(''pe_ratio'', VNone), (''cape_ratio'', VNone), (''baa_yield'', VNone),
        (''treasury_10y'', VNone), (''baa_spread'', VNone), (''market_to_gdp'', VNone),
        (''gdp'', VNone), (''gdp_growth'', VNone), (''govt_debt'', VNone),
        (''govt_deficit'', VNone), (''debt_to_gdp'', VNone), (''10yr_yield'', VNone),
        (''inflation_rate'', VNone), (''equity_risk_premium'', VNone),
        (''earnings_growth'', VNone), (''gold_price'', VNone), (''bitcoin_price'', VNone),
        (''wti_crude_price'', VNone)])
   \<and> get_all_metrics_from
        [(''Gold Price'', (\<lambda>w. Inl ValueError), ''a resolver that raises''),
         (''Bitcoin Price'', get_bitcoin_price, ''Yahoo Finance - BTC-USD'')] failing_world
      = Inr (VDict [(''gold_price'', VNone), (''bitcoin_price'', VNone)])"
proof -
  have b: "get_bitcoin_price failing_world = Inr VNone"
    by (rule all_fail_resolvers [OF failing_world_fails])
  have h: "(\<lambda>w. Inl ValueError) failing_world = Inl ValueError \<and> ''Gold Price'' \<noteq> ''US All Metrics''"
    by simp
  from get_all_metrics_covers [of failing_world] failing_world_fails
  have first: "get_all_metrics failing_world =
      Inr (VDict [(''pe_ratio'', VNone), (''cape_ratio'', VNone), (''baa_yield'', VNone),
        (''treasury_10y'', VNone), (''baa_spread'', VNone), (''market_to_gdp'', VNone),
        (''gdp'', VNone), (''gdp_growth'', VNone), (''govt_debt'', VNone),
        (''govt_deficit'', VNone), (''debt_to_gdp'', VNone), (''10yr_yield'', VNone),
        (''inflation_rate'', VNone), (''equity_risk_premium'', VNone),
        (''earnings_growth'', VNone), (''gold_price'', VNone), (''bitcoin_price'', VNone),
        (''wti_crude_price'', VNone)])"
    by blast
  from get_all_metrics_covers [of failing_world "\<lambda>w. Inl ValueError" ValueError "''Gold Price''"
      "[]" "''a resolver that raises''"
      "[(''Bitcoin Price'', get_bitcoin_price, ''Yahoo Finance - BTC-USD'')]"] h
  have "get_all_metrics_from
        ([] @ (''Gold Price'', (\<lambda>w. Inl ValueError), ''a resolver that raises'')
          # [(''Bitcoin Price'', get_bitcoin_price, ''Yahoo Finance - BTC-USD'')]) failing_world
      = Inr (VDict (all_metrics_loop failing_world
            [(''Bitcoin Price'', get_bitcoin_price, ''Yahoo Finance - BTC-USD'')]
            (dict_set (all_metrics_loop failing_world [] [])
               (normalize_metric_name ''Gold Price'') VNone)))"
    by blast
  then have second: "get_all_metrics_from
        [(''Gold Price'', (\<lambda>w. Inl ValueError), ''a resolver that raises''),
         (''Bitcoin Price'', get_bitcoin_price, ''Yahoo Finance - BTC-USD'')] failing_world
      = Inr (VDict [(''gold_price'', VNone), (''bitcoin_price'', VNone)])"
    by (simp add: b merge_result_def normalize_metric_name_def dict_set_def)
  from first second show ?thesis by blast
qed

section \<open>Results with a value entry\<close>

text \<open>
  C10. A resolver result that is a mapping with the key \<open>value\<close> puts only that value into the
  merged mapping, under the normalized name of the indicator: no other key of the result
  is added. In every world the merged mapping of \<open>get_all_metrics\<close> has neither the key
  \<open>earnings_yield\<close> nor the key \<open>risk_free_rate\<close>, and when the equity risk premium is a mapping
  with a \<open>value\<close>, as the fallback's \<open>{value, earnings_yield, risk_free_rate}\<close> is, the entry
  \<open>equity_risk_premium\<close> of the merged mapping is that value.
\<close>

theorem value_entry_collapsed:
  "(map_of d ''value'' = Some v \<longrightarrow>
      merge_result metrics metric_name (Inr (VDict d))
        = dict_set metrics (normalize_metric_name metric_name) v
      \<and> set (dict_keys (merge_result metrics metric_name (Inr (VDict d))))
        = insert (normalize_metric_name metric_name) (set (dict_keys metrics)))
   \<and> (\<exists>merged. get_all_metrics w = Inr (VDict merged)
        \<and> ''earnings_yield'' \<notin> set (dict_keys merged)
        \<and> ''risk_free_rate'' \<notin> set (dict_keys merged)
        \<and> (get_equity_risk_premium w = Inr (VDict d) \<and> map_of d ''value'' = Some v \<longrightarrow>
             map_of merged ''equity_risk_premium'' = Some v))"
proof (intro conjI impI)
  assume v: "map_of d ''value'' = Some v"
  then show "merge_result metrics metric_name (Inr (VDict d))
        = dict_set metrics (normalize_metric_name metric_name) v"
    by (simp add: merge_result_def)
  then show "set (dict_keys (merge_result metrics metric_name (Inr (VDict d))))
        = insert (normalize_metric_name metric_name) (set (dict_keys metrics))"
    by (simp add: dict_keys_dict_set)
next
  let ?merged = "all_metrics_loop w get_metric_definitions []"
  have keys: "set (dict_keys ?merged) \<subseteq> set merged_key_names"
    using get_all_metrics_keys [of w] catalog_keys_known [of w get_all_metrics]
    by (simp add: get_metric_definitions_def)
  have "''earnings_yield'' \<notin> set merged_key_names" "''risk_free_rate'' \<notin> set merged_key_names"
    by (simp_all add: merged_key_names_def)
  with keys have "''earnings_yield'' \<notin> set (dict_keys ?merged)"
    "''risk_free_rate'' \<notin> set (dict_keys ?merged)"
    by blast+
  moreover have "get_equity_risk_premium w = Inr (VDict d) \<and> map_of d ''value'' = Some v \<longrightarrow>
      map_of ?merged ''equity_risk_premium'' = Some v"
    using premium_entry_kept by blast
  ultimately show "\<exists>merged. get_all_metrics w = Inr (VDict merged)
        \<and> ''earnings_yield'' \<notin> set (dict_keys merged)
        \<and> ''risk_free_rate'' \<notin> set (dict_keys merged)
        \<and> (get_equity_risk_premium w = Inr (VDict d) \<and> map_of d ''value'' = Some v \<longrightarrow>
             map_of merged ''equity_risk_premium'' = Some v)"
    using get_all_metrics_loop [of w] by blast
qed

theorem value_entry_collapsed_witness:
  "merge_result [(''gdp'', VNone)] ''US Equity Risk Premium''
      (Inr (VDict [(''value'', VFloat (Fin 1)), (''earnings_yield'', VFloat (Fin 5)),
                   (''risk_free_rate'', VFloat (Fin 4))]))
     = [(''gdp'', VNone), (''equity_risk_premium'', VFloat (Fin 1))]
   \<and> (\<exists>merged. get_all_metrics fallback_world = Inr (VDict merged)
        \<and> ''earnings_yield'' \<notin> set (dict_keys merged)
        \<and> ''risk_free_rate'' \<notin> set (dict_keys merged)
        \<and> map_of merged ''equity_risk_premium'' = Some (VFloat (Fin 1)))"
proof -
  let ?d = "[(''value'', VFloat (Fin 1)), (''earnings_yield'', VFloat (Fin 5)),
             (''risk_free_rate'', VFloat (Fin 4))]"
  have v: "map_of ?d ''value'' = Some (VFloat (Fin 1))" by simp
  note inst = value_entry_collapsed [of ?d "VFloat (Fin 1)" "[(''gdp'', VNone)]"
      "''US Equity Risk Premium''" fallback_world]
  from inst v have "merge_result [(''gdp'', VNone)] ''US Equity Risk Premium'' (Inr (VDict ?d))
      = dict_set [(''gdp'', VNone)] (normalize_metric_name ''US Equity Risk Premium'') (VFloat (Fin 1))"
    by blast
  then have a: "merge_result [(''gdp'', VNone)] ''US Equity Risk Premium'' (Inr (VDict ?d))
      = [(''gdp'', VNone), (''equity_risk_premium'', VFloat (Fin 1))]"
    by (simp add: dict_set_def normalize_metric_name_def)
  from inst fallback_premium v
  have b: "\<exists>merged. get_all_metrics fallback_world = Inr (VDict merged)
        \<and> ''earnings_yield'' \<notin> set (dict_keys merged)
        \<and> ''risk_free_rate'' \<notin> set (dict_keys merged)
        \<and> map_of merged ''equity_risk_premium'' = Some (VFloat (Fin 1))"
    by blast
  from a b show ?thesis by blast
qed

end
